theory Spec2Isabelle
  imports Complex_Main
begin

chapter \<open>The model of the forecasting service\<close>

section \<open>Python values and exceptions\<close>

text \<open>
  A raised Python exception is a value: its class name and the text \<open>str(e)\<close> gives,
  which is what the handlers of the service record. Python floats are modelled as exact
  reals: rounding of IEEE doubles is not part of the model.
\<close>

datatype py_exception = PyExc (exc_type: string) (exc_str: string)

text \<open>\<open>HTTPException(status_code=..., detail=...)\<close> of the web framework.\<close>

datatype http_exception = HTTPException (status_code: nat) (detail: string)

text \<open>A value of type \<open>Any\<close> as it arrives in a JSON body.\<close>

datatype json =
    JNull
  | JBool bool
  | JInt int
  | JFloat real
  | JStr string
  | JList "json list"
  | JDict "(string \<times> json) list"

fun type_name :: "json \<Rightarrow> string" where
  "type_name JNull = ''NoneType''"
| "type_name (JBool b) = ''bool''"
| "type_name (JInt i) = ''int''"
| "type_name (JFloat x) = ''float''"
| "type_name (JStr s) = ''str''"
| "type_name (JList xs) = ''list''"
| "type_name (JDict kvs) = ''dict''"

text \<open>A name between single quotes, as Python's messages print it.\<close>

definition quoted :: "string \<Rightarrow> string" where
  "quoted s = CHR 0x27 # s @ [CHR 0x27]"

text \<open>The numeric reading of a value; \<open>bool\<close> is a subclass of \<open>int\<close> in Python.\<close>

fun as_number :: "json \<Rightarrow> real option" where
  "as_number (JBool b) = Some (if b then 1 else 0)"
| "as_number (JInt i) = Some (real_of_int i)"
| "as_number (JFloat x) = Some x"
| "as_number v = None"

text \<open>\<open>v >= r\<close> for a float literal \<open>r\<close>: a TypeError unless \<open>v\<close> is a number.\<close>

definition py_ge_float :: "json \<Rightarrow> real \<Rightarrow> py_exception + bool" where
  "py_ge_float v r =
     (case as_number v of
        Some x \<Rightarrow> Inr (x \<ge> r)
      | None \<Rightarrow> Inl (PyExc ''TypeError''
          (quoted ''>='' @ '' not supported between instances of '' @ quoted (type_name v)
             @ '' and '' @ quoted ''float'')))"


text \<open>\<open>d.get(k, default)\<close>.\<close>

definition dict_get :: "('k \<rightharpoonup> 'v) \<Rightarrow> 'k \<Rightarrow> 'v \<Rightarrow> 'v" where
  "dict_get d k dflt = (case d k of Some v \<Rightarrow> v | None \<Rightarrow> dflt)"


section \<open>Price optimisation (\<open>POST /optimize-price\<close>)\<close>



text \<open>The \<open>if/elif\<close> ladder on the occupancy; each comparison may raise.\<close>

definition occupancy_multiplier :: "json \<Rightarrow> py_exception + real" where
  "occupancy_multiplier occupancy =
     (case py_ge_float occupancy 0.9 of Inl e \<Rightarrow> Inl e
      | Inr True \<Rightarrow> Inr 1.5
      | Inr False \<Rightarrow>
     (case py_ge_float occupancy 0.7 of Inl e \<Rightarrow> Inl e
      | Inr True \<Rightarrow> Inr 1.2
      | Inr False \<Rightarrow>
     (case py_ge_float occupancy 0.5 of Inl e \<Rightarrow> Inl e
      | Inr True \<Rightarrow> Inr 1.0
      | Inr False \<Rightarrow>
     (case py_ge_float occupancy 0.3 of Inl e \<Rightarrow> Inl e
      | Inr True \<Rightarrow> Inr 0.9
      | Inr False \<Rightarrow> Inr 0.85))))"





section \<open>Timestamps and the calendar\<close>

text \<open>
  A \<open>pd.Timestamp\<close> is its count of nanoseconds since 1970-01-01T00:00 (no time zone);
  the bounds of the 64-bit representation are not modelled. A \<open>Timedelta\<close> is a
  difference of two such counts.
\<close>

type_synonym timestamp = int

definition NS_PER_DAY :: int where
  "NS_PER_DAY = 86400000000000"

text \<open>\<open>Timedelta.days\<close>: whole days, rounded towards minus infinity.\<close>

definition timedelta_days :: "int \<Rightarrow> int" where
  "timedelta_days td = td div NS_PER_DAY"

text \<open>The day on which a timestamp falls, counted from 1970-01-01.\<close>

definition day_number :: "timestamp \<Rightarrow> int" where
  "day_number ts = ts div NS_PER_DAY"

text \<open>\<open>Timestamp.dayofweek\<close>: Monday is 0, Sunday is 6; 1970-01-01 was a Thursday.\<close>

definition dayofweek :: "timestamp \<Rightarrow> int" where
  "dayofweek ts = (day_number ts + 3) mod 7"

text \<open>
  \<open>Timestamp.month\<close> in the proleptic Gregorian calendar, from the day number: the day
  within its 400-year era, the year of the era, the day of the year counted from 1 March,
  and the month that day falls in.
\<close>

definition month_of_day :: "int \<Rightarrow> int" where
  "month_of_day d =
     (let doe = (d + 719468) mod 146097;
          yoe = (doe - doe div 1460 + doe div 36524 - doe div 146096) div 365;
          doy = doe - (365 * yoe + yoe div 4 - yoe div 100);
          mp = (5 * doy + 2) div 153
      in (mp + 2) mod 12 + 1)"

definition month :: "timestamp \<Rightarrow> int" where
  "month ts = month_of_day (day_number ts)"

text \<open>The day number of a calendar date, and the timestamp of its midnight.\<close>

definition days_from_civil :: "int \<Rightarrow> int \<Rightarrow> int \<Rightarrow> int" where
  "days_from_civil y m d =
     (let y' = (if m \<le> 2 then y - 1 else y);
          era = y' div 400;
          yoe = y' - era * 400;
          doy = (153 * (if m > 2 then m - 3 else m + 9) + 2) div 5 + d - 1;
          doe = yoe * 365 + yoe div 4 - yoe div 100 + doy
      in era * 146097 + doe - 719468)"

definition Timestamp :: "int \<Rightarrow> int \<Rightarrow> int \<Rightarrow> timestamp" where
  "Timestamp y m d = days_from_civil y m d * NS_PER_DAY"


section \<open>The fallback forecast\<close>

text \<open>
  A forecast point. The \<open>date\<close> field holds the timestamp whose \<open>isoformat()\<close> string
  the service sends.
\<close>

record ForecastPoint =
  date :: timestamp
  predictedValue :: real
  lowerBound :: "real option"
  upperBound :: "real option"
  confidence :: real

definition seasonal_map :: "int \<rightharpoonup> real" where
  "seasonal_map = map_of
     [(1, 0.85), (2, 0.90), (3, 0.95), (4, 1.05), (5, 1.15), (6, 1.30),
      (7, 1.35), (8, 1.35), (9, 1.20), (10, 1.10), (11, 0.95), (12, 1.00)]"

text \<open>\<open>str\<close> of a natural number, for the text of a \<open>KeyError\<close> on an integer key.\<close>

fun str_nat :: "nat \<Rightarrow> string" where
  "str_nat n =
     (if n < 10 then [char_of (48 + n)] else str_nat (n div 10) @ [char_of (48 + n mod 10)])"

definition str_int :: "int \<Rightarrow> string" where
  "str_int i = (if i < 0 then CHR ''-'' # str_nat (nat (- i)) else str_nat (nat i))"

text \<open>One pass through the body of the \<open>while\<close> loop: the point for \<open>current_date\<close>.\<close>

definition fallback_point :: "timestamp \<Rightarrow> py_exception + ForecastPoint" where
  "fallback_point current_date =
     (let month = month current_date;
          day_of_week = dayofweek current_date;
          base_occupancy = 0.5
      in case seasonal_map month of
           None \<Rightarrow> Inl (PyExc ''KeyError'' (str_int month))
         | Some seasonal_factor \<Rightarrow>
             (let weekend_factor = (if day_of_week \<ge> 5 then 1.2 else 1.0);
                  predicted_value = base_occupancy * seasonal_factor * weekend_factor;
                  predicted_value = min (max predicted_value 0.0) 1.0
              in Inr \<lparr>date = current_date,
                       predictedValue = predicted_value,
                       lowerBound = Some (max (predicted_value - 0.1) 0.0),
                       upperBound = Some (min (predicted_value + 0.1) 1.0),
                       confidence = 0.5\<rparr>))"

text \<open>The \<open>while current_date <= end_date\<close> loop, with the list built so far.\<close>

function fallback_loop ::
  "timestamp \<Rightarrow> timestamp \<Rightarrow> ForecastPoint list \<Rightarrow> py_exception + ForecastPoint list" where
  "fallback_loop current_date end_date forecast_points =
     (if current_date \<le> end_date then
        (case fallback_point current_date of
           Inl e \<Rightarrow> Inl e
         | Inr p \<Rightarrow> fallback_loop (current_date + NS_PER_DAY) end_date (forecast_points @ [p]))
      else Inr forecast_points)"
  by pat_completeness auto
termination
  by (relation "measure (\<lambda>(c, e, ps). nat (e - c + 1))") (auto simp: NS_PER_DAY_def)

declare fallback_loop.simps [simp del]

definition generate_fallback_forecast ::
  "timestamp \<Rightarrow> timestamp \<Rightarrow> py_exception + ForecastPoint list" where
  "generate_fallback_forecast start_date end_date = fallback_loop start_date end_date []"

text \<open>The formulas of the specification for one fallback point.\<close>

definition clamp :: "real \<Rightarrow> real \<Rightarrow> real \<Rightarrow> real" where
  "clamp x lo hi = min (max x lo) hi"

definition seasonalFactor :: "int \<Rightarrow> real" where
  "seasonalFactor m =
     (if m = 1 then 0.85 else if m = 2 then 0.90 else if m = 3 then 0.95
      else if m = 4 then 1.05 else if m = 5 then 1.15 else if m = 6 then 1.30
      else if m = 7 then 1.35 else if m = 8 then 1.35 else if m = 9 then 1.20
      else if m = 10 then 1.10 else if m = 11 then 0.95 else 1.00)"

definition weekendFactor :: "int \<Rightarrow> real" where
  "weekendFactor wd = (if wd = 5 \<or> wd = 6 then 1.2 else 1.0)"

definition spec_fallback_point :: "timestamp \<Rightarrow> ForecastPoint" where
  "spec_fallback_point ts =
     (let pv = clamp (0.5 * seasonalFactor (month ts) * weekendFactor (dayofweek ts)) 0.0 1.0
      in \<lparr>date = ts, predictedValue = pv,
          lowerBound = Some (clamp (pv - 0.1) 0 1),
          upperBound = Some (clamp (pv + 0.1) 0 1),
          confidence = 0.5\<rparr>)"


text \<open>
  The number of passes of the loop, and the timestamps it visits: \<open>start\<close>,
  \<open>start\<close> plus one day, and so on.
\<close>

definition day_count :: "timestamp \<Rightarrow> timestamp \<Rightarrow> nat" where
  "day_count s e = (if s \<le> e then nat (timedelta_days (e - s) + 1) else 0)"

definition day_steps :: "timestamp \<Rightarrow> nat \<Rightarrow> timestamp list" where
  "day_steps s n = map (\<lambda>k. s + int k * NS_PER_DAY) [0..<n]"



section \<open>The min-max scaler\<close>

text \<open>
  \<open>sklearn.preprocessing.MinMaxScaler\<close> with its default range \<open>(0, 1)\<close>, on one column.
  The fitted state is the minimum and the maximum of the data it was fitted on, from
  which the attributes \<open>scale_\<close> and \<open>min_\<close> are computed (\<open>scale_factor\<close> and
  \<open>min_offset\<close> below). A column whose maximum equals its minimum is scaled by 1. Every
  method validates its input and rejects an array without rows; \<open>transform\<close> and
  \<open>inverse_transform\<close> reject an instance that is not fitted.
\<close>

record MinMaxScaler =
  data_range :: "(real \<times> real) option"

definition new_MinMaxScaler :: MinMaxScaler where
  "new_MinMaxScaler = \<lparr>data_range = None\<rparr>"

fun list_min :: "real list \<Rightarrow> real" where
  "list_min [] = 0"
| "list_min (x # xs) = fold min xs x"

fun list_max :: "real list \<Rightarrow> real" where
  "list_max [] = 0"
| "list_max (x # xs) = fold max xs x"

definition scale_factor :: "real \<times> real \<Rightarrow> real" where
  "scale_factor r = (case r of (mn, mx) \<Rightarrow> 1 / (if mx - mn = 0 then 1 else mx - mn))"

definition min_offset :: "real \<times> real \<Rightarrow> real" where
  "min_offset r = 0 - fst r * scale_factor r"

definition scale_value :: "real \<times> real \<Rightarrow> real \<Rightarrow> real" where
  "scale_value r x = x * scale_factor r + min_offset r"

definition unscale_value :: "real \<times> real \<Rightarrow> real \<Rightarrow> real" where
  "unscale_value r x = (x - min_offset r) / scale_factor r"

definition no_samples :: py_exception where
  "no_samples = PyExc ''ValueError''
     ''Found array with 0 sample(s) (shape=(0, 1)) while a minimum of 1 is required by MinMaxScaler.''"

definition no_samples_to_invert :: py_exception where
  "no_samples_to_invert = PyExc ''ValueError''
     ''Found array with 0 sample(s) (shape=(0, 1)) while a minimum of 1 is required.''"

definition not_fitted :: py_exception where
  "not_fitted = PyExc ''NotFittedError''
     (''This MinMaxScaler instance is not fitted yet. Call '' @ quoted ''fit''
        @ '' with appropriate arguments before using this estimator.'')"

text \<open>\<open>fit_transform\<close> returns the scaled data and the scaler as the call leaves it.\<close>

definition fit_transform :: "MinMaxScaler \<Rightarrow> real list \<Rightarrow> (py_exception + real list) \<times> MinMaxScaler" where
  "fit_transform sc xs =
     (if xs = [] then (Inl no_samples, \<lparr>data_range = None\<rparr>)
      else (let r = (list_min xs, list_max xs)
            in (Inr (map (scale_value r) xs), \<lparr>data_range = Some r\<rparr>)))"

definition transform :: "MinMaxScaler \<Rightarrow> real list \<Rightarrow> py_exception + real list" where
  "transform sc xs =
     (case data_range sc of
        None \<Rightarrow> Inl not_fitted
      | Some r \<Rightarrow> if xs = [] then Inl no_samples else Inr (map (scale_value r) xs))"

definition inverse_transform :: "MinMaxScaler \<Rightarrow> real list \<Rightarrow> py_exception + real list" where
  "inverse_transform sc xs =
     (case data_range sc of
        None \<Rightarrow> Inl not_fitted
      | Some r \<Rightarrow>
          if xs = [] then Inl no_samples_to_invert else Inr (map (unscale_value r) xs))"


section \<open>The sequence-window forecaster (\<open>LSTMForecaster\<close>)\<close>

text \<open>
  The network library is a parameter: building a network for an input shape, fitting it
  (which changes the network in place and may raise), and predicting the next value from
  one window. What the calls compute is the library's business.
\<close>

record 'm keras =
  build_model :: "nat \<Rightarrow> 'm"
  keras_fit :: "'m \<Rightarrow> real list list \<times> real list \<Rightarrow> real list list \<times> real list
                  \<Rightarrow> json \<Rightarrow> json \<Rightarrow> py_exception option \<times> 'm"
  predict :: "'m \<Rightarrow> real list \<Rightarrow> real"

record 'm LSTMForecaster =
  model :: "'m option"
  scaler :: MinMaxScaler
  sequence_length :: nat

text \<open>\<open>LSTMForecaster(sequence_length)\<close>; the default window length is 30.\<close>

definition new_LSTMForecaster :: "nat \<Rightarrow> 'm LSTMForecaster" where
  "new_LSTMForecaster n = \<lparr>model = None, scaler = new_MinMaxScaler, sequence_length = n\<rparr>"

record metrics =
  mape :: real
  rmse :: real
  accuracy :: real

text \<open>
  \<open>prepare_data\<close>. The loop runs over \<open>range(len(scaled_data) - sequence_length)\<close>,
  which is empty when the difference is not positive, as the truncating subtraction on
  naturals makes \<open>[0..<n - l]\<close>. Pass \<open>i\<close> appends the slice \<open>[i : i + l]\<close> to \<open>X\<close> and the
  element at \<open>i + l\<close> to \<open>y\<close>. The fitted scaler stays in the forecaster.
\<close>

definition prepare_data ::
  "'m LSTMForecaster \<Rightarrow> real list
     \<Rightarrow> (py_exception + real list list \<times> real list) \<times> 'm LSTMForecaster" where
  "prepare_data self data =
     (case fit_transform (scaler self) data of
        (Inl e, sc) \<Rightarrow> (Inl e, self\<lparr>scaler := sc\<rparr>)
      | (Inr scaled_data, sc) \<Rightarrow>
          (let l = sequence_length self;
               X = map (\<lambda>i. take l (drop i scaled_data)) [0..<length scaled_data - l];
               y = map (\<lambda>i. scaled_data ! (i + l)) [0..<length scaled_data - l]
           in (Inr (X, y), self\<lparr>scaler := sc\<rparr>)))"

text \<open>\<open>X.shape[1]\<close>: an array built from an empty list has the shape \<open>(0,)\<close>.\<close>

definition shape_1 :: "real list list \<Rightarrow> py_exception + nat" where
  "shape_1 X =
     (case X of
        [] \<Rightarrow> Inl (PyExc ''IndexError'' ''tuple index out of range'')
      | x # _ \<Rightarrow> Inr (length x))"

text \<open>\<open>int(len(X) * 0.8)\<close>.\<close>

definition split_index :: "nat \<Rightarrow> nat" where
  "split_index n = nat \<lfloor>real n * 0.8\<rfloor>"

text \<open>The error measures of \<open>sklearn.metrics\<close>, on arrays of equal positive length.\<close>

definition mean :: "real list \<Rightarrow> real" where
  "mean xs = sum_list xs / real (length xs)"

definition mean_squared_error :: "real list \<Rightarrow> real list \<Rightarrow> real" where
  "mean_squared_error y_true y_pred = mean (map2 (\<lambda>t p. (t - p)\<^sup>2) y_true y_pred)"

definition mean_absolute_percentage_error :: "real list \<Rightarrow> real list \<Rightarrow> real" where
  "mean_absolute_percentage_error y_true y_pred =
     mean (map2 (\<lambda>t p. \<bar>p - t\<bar> / max \<bar>t\<bar> (1 / 2 ^ 52)) y_true y_pred)"

text \<open>\<open>parameters.get(k, default) if parameters else default\<close>.\<close>

definition parameter :: "(string \<rightharpoonup> json) option \<Rightarrow> string \<Rightarrow> json \<Rightarrow> json" where
  "parameter parameters k dflt =
     (case parameters of None \<Rightarrow> dflt | Some d \<Rightarrow> dict_get d k dflt)"

text \<open>
  \<open>LSTMForecaster.train\<close>: the metrics or the exception raised, and the forecaster as
  the call leaves it. The network is stored in \<open>self.model\<close> before it is fitted.
\<close>

definition LSTM_train ::
  "'m keras \<Rightarrow> 'm LSTMForecaster \<Rightarrow> real list \<Rightarrow> (string \<rightharpoonup> json) option
     \<Rightarrow> (py_exception + metrics) \<times> 'm LSTMForecaster" where
  "LSTM_train lib self data parameters =
     (case prepare_data self data of
        (Inl e, self1) \<Rightarrow> (Inl e, self1)
      | (Inr (X, y), self1) \<Rightarrow>
          (let split_idx = split_index (length X);
               X_train = take split_idx X; X_val = drop split_idx X;
               y_train = take split_idx y; y_val = drop split_idx y
           in case shape_1 X of
                Inl e \<Rightarrow> (Inl e, self1)
              | Inr d \<Rightarrow>
                  (let self2 = self1\<lparr>model := Some (build_model lib d)\<rparr>;
                       epochs = parameter parameters ''epochs'' (JInt 50);
                       batch_size = parameter parameters ''batch_size'' (JInt 32)
                   in case keras_fit lib (build_model lib d) (X_train, y_train) (X_val, y_val)
                             epochs batch_size of
                        (Some e, m) \<Rightarrow> (Inl e, self2\<lparr>model := Some m\<rparr>)
                      | (None, m) \<Rightarrow>
                          (let self3 = self2\<lparr>model := Some m\<rparr>;
                               predictions = map (predict lib m) X_val;
                               mse = mean_squared_error y_val predictions;
                               rmse = sqrt mse
                           in case inverse_transform (scaler self3) y_val of
                                Inl e \<Rightarrow> (Inl e, self3)
                              | Inr y_val_inv \<Rightarrow>
                                  (case inverse_transform (scaler self3) predictions of
                                     Inl e \<Rightarrow> (Inl e, self3)
                                   | Inr pred_inv \<Rightarrow>
                                       (let mape = mean_absolute_percentage_error y_val_inv pred_inv
                                        in (Inr \<lparr>mape = mape, rmse = rmse, accuracy = 1 - mape\<rparr>,
                                            self3)))))))"

text \<open>
  \<open>scaled_sequence[-sequence_length:]\<close>: the last \<open>l\<close> entries, all of them when there
  are fewer, and all of them when \<open>l\<close> is 0 (the slice \<open>[-0:]\<close> is \<open>[0:]\<close>).
\<close>

definition last_entries :: "nat \<Rightarrow> 'a list \<Rightarrow> 'a list" where
  "last_entries l xs = (if l = 0 then xs else drop (length xs - l) xs)"

text \<open>\<open>.reshape(1, sequence_length, 1)\<close> needs exactly \<open>sequence_length\<close> entries.\<close>

definition reshape_window :: "nat \<Rightarrow> real list \<Rightarrow> py_exception + real list" where
  "reshape_window l xs =
     (if length xs = l then Inr xs
      else Inl (PyExc ''ValueError''
        (''cannot reshape array of size '' @ str_nat (length xs) @ '' into shape (1,''
           @ str_nat l @ '',1)'')))"

text \<open>
  The \<open>for _ in range(periods)\<close> loop of \<open>forecast\<close>, with the passes left to run, the
  current window and the predictions made so far.
\<close>

fun forecast_loop :: "(real list \<Rightarrow> real) \<Rightarrow> nat \<Rightarrow> real list \<Rightarrow> real list \<Rightarrow> real list" where
  "forecast_loop f 0 current_sequence predictions = predictions"
| "forecast_loop f (Suc n) current_sequence predictions =
     (let next_pred = f current_sequence
      in forecast_loop f n (tl current_sequence @ [next_pred]) (predictions @ [next_pred]))"

definition model_not_trained :: py_exception where
  "model_not_trained = PyExc ''ValueError'' ''Model not trained. Call train() first.''"

text \<open>\<open>LSTMForecaster.forecast\<close>; \<open>range(periods)\<close> is empty for a negative \<open>periods\<close>.\<close>

definition LSTM_forecast ::
  "'m keras \<Rightarrow> 'm LSTMForecaster \<Rightarrow> real list \<Rightarrow> int \<Rightarrow> py_exception + real list" where
  "LSTM_forecast lib self last_sequence periods =
     (case model self of
        None \<Rightarrow> Inl model_not_trained
      | Some m \<Rightarrow>
          (case transform (scaler self) last_sequence of
             Inl e \<Rightarrow> Inl e
           | Inr scaled_sequence \<Rightarrow>
               (case reshape_window (sequence_length self)
                       (last_entries (sequence_length self) scaled_sequence) of
                  Inl e \<Rightarrow> Inl e
                | Inr current_sequence \<Rightarrow>
                    inverse_transform (scaler self)
                      (forecast_loop (predict lib m) (nat periods) current_sequence []))))"

text \<open>
  \<open>LSTMForecaster.save\<close> and \<open>load\<close>. The file system is a parameter of the calls: what
  writing raises, and what the two reads return.
\<close>

definition LSTM_save ::
  "('m \<Rightarrow> string \<Rightarrow> py_exception option) \<Rightarrow> (MinMaxScaler \<Rightarrow> string \<Rightarrow> py_exception option)
     \<Rightarrow> 'm LSTMForecaster \<Rightarrow> string \<Rightarrow> py_exception option" where
  "LSTM_save model_save dump self path =
     (case model self of
        None \<Rightarrow> None
      | Some m \<Rightarrow>
          (case model_save m path of
             Some e \<Rightarrow> Some e
           | None \<Rightarrow> dump (scaler self) (path @ ''_scaler.pkl'')))"



text \<open>The min-max normalisation of a non-empty series into \<open>[0, 1]\<close>.\<close>

definition normalized :: "real list \<Rightarrow> real list" where
  "normalized xs = map (scale_value (list_min xs, list_max xs)) xs"


text \<open>
  The autoregressive sequence as the specification words it: predict the next value
  from the current window, then slide the window by dropping its oldest entry and
  appending the value just predicted.
\<close>

fun autoregress :: "(real list \<Rightarrow> real) \<Rightarrow> nat \<Rightarrow> real list \<Rightarrow> real list" where
  "autoregress f 0 w = []"
| "autoregress f (Suc n) w = f w # autoregress f n (tl w @ [f w])"

text \<open>
  Two stand-ins for the network library, for concrete runs: the network is a unit
  value and predicts the mean of its window; fitting succeeds in the first and raises in
  the second.
\<close>

definition demo_keras :: "unit keras" where
  "demo_keras = \<lparr>build_model = (\<lambda>d. ()),
                  keras_fit = (\<lambda>m tr va ep bs. (None, m)),
                  predict = (\<lambda>m w. mean w)\<rparr>"




section \<open>The seasonal-trend forecaster (\<open>ProphetForecaster\<close>)\<close>

text \<open>
  A data frame with the columns \<open>ds\<close> and \<open>y\<close> is the list of its rows; the frame built
  from an empty list of rows has no columns. A forecast frame has the columns \<open>ds\<close>,
  \<open>yhat\<close>, \<open>yhat_lower\<close> and \<open>yhat_upper\<close>.
\<close>

type_synonym dataframe = "(timestamp \<times> real) list"

record forecast_row =
  ds :: timestamp
  yhat :: real
  yhat_lower :: real
  yhat_upper :: real

text \<open>
  The Prophet library at its interface. Three things are the library's business and
  are parameters: whether the constructor accepts the keyword arguments, the fitting of
  the decomposition (which may raise), and the three values predicted for a date. What
  the object keeps is modelled: \<open>fit\<close> refuses a frame without columns and a frame with
  fewer than two rows, then records the sorted distinct dates of the history, then fits.
  \<open>make_future_dataframe\<close> extends the recorded history by \<open>periods\<close> daily steps after
  its last date and refuses an object without history; \<open>predict\<close> returns one row per
  requested date in ascending date order.
\<close>

record 'f prophet_lib =
  check_kwargs :: "(string \<rightharpoonup> json) \<Rightarrow> py_exception option"
  optimize :: "(string \<rightharpoonup> json) \<Rightarrow> dataframe \<Rightarrow> py_exception + 'f"
  predict_date :: "'f \<Rightarrow> timestamp \<Rightarrow> real \<times> real \<times> real"

record 'f Prophet =
  history_dates :: "timestamp list option"
  fitted_params :: "'f option"

definition new_Prophet :: "'f Prophet" where
  "new_Prophet = \<lparr>history_dates = None, fitted_params = None\<rparr>"

definition missing_columns :: py_exception where
  "missing_columns = PyExc ''ValueError''
     (''Dataframe must have columns '' @ [CHR 0x22] @ ''ds'' @ [CHR 0x22] @ '' and ''
        @ [CHR 0x22] @ ''y'' @ [CHR 0x22] @ '' with the dates and values respectively.'')"

definition too_few_rows :: py_exception where
  "too_few_rows = PyExc ''ValueError'' ''Dataframe has less than 2 non-NaN rows.''"

definition not_fit :: py_exception where
  "not_fit = PyExc ''Exception'' ''Model has not been fit.''"

text \<open>\<open>Prophet(**params).fit(df)\<close> on a new object: the exception, if any, and the object.\<close>

definition Prophet_fit ::
  "'f prophet_lib \<Rightarrow> (string \<rightharpoonup> json) \<Rightarrow> dataframe \<Rightarrow> py_exception option \<times> 'f Prophet" where
  "Prophet_fit lib params df =
     (if df = [] then (Some missing_columns, new_Prophet)
      else if length df < 2 then (Some too_few_rows, new_Prophet)
      else (let dates = sort (remdups (map fst df))
            in case optimize lib params df of
                 Inl e \<Rightarrow> (Some e, \<lparr>history_dates = Some dates, fitted_params = None\<rparr>)
               | Inr f \<Rightarrow> (None, \<lparr>history_dates = Some dates, fitted_params = Some f\<rparr>)))"

definition predicted_row :: "'f prophet_lib \<Rightarrow> 'f \<Rightarrow> timestamp \<Rightarrow> forecast_row" where
  "predicted_row lib f d =
     (case predict_date lib f d of
        (v, lo, hi) \<Rightarrow> \<lparr>ds = d, yhat = v, yhat_lower = lo, yhat_upper = hi\<rparr>)"

text \<open>
  \<open>predict\<close>. An object that was never fitted is refused; one whose fitting raised has a
  history and no parameters, and the lookup of the trend parameter fails.
\<close>

definition Prophet_predict ::
  "'f prophet_lib \<Rightarrow> 'f Prophet \<Rightarrow> timestamp list \<Rightarrow> py_exception + forecast_row list" where
  "Prophet_predict lib p dates =
     (case history_dates p of
        None \<Rightarrow> Inl not_fit
      | Some h \<Rightarrow>
          if dates = [] then Inl (PyExc ''ValueError'' ''Dataframe has no rows.'')
          else (case fitted_params p of
                  None \<Rightarrow> Inl (PyExc ''KeyError'' (quoted ''k''))
                | Some f \<Rightarrow> Inr (map (predicted_row lib f) (sort dates))))"

text \<open>
  \<open>make_future_dataframe(periods, freq='D')\<close>: the history, then the days after its
  last date. The interval \<open>[1..periods]\<close> is empty when \<open>periods\<close> is not positive;
  the properties below are stated for \<open>periods \<ge> 1\<close>.
\<close>

definition make_future_dataframe :: "'f Prophet \<Rightarrow> int \<Rightarrow> py_exception + timestamp list" where
  "make_future_dataframe p periods =
     (case history_dates p of
        None \<Rightarrow> Inl not_fit
      | Some h \<Rightarrow>
          (case h of
             [] \<Rightarrow> Inr []
           | d # ds' \<Rightarrow>
               Inr (h @ map (\<lambda>k. fold max ds' d + k * NS_PER_DAY) [1..periods])))"

record 'f ProphetForecaster =
  pf_model :: "'f Prophet option"
  pf_scaler :: MinMaxScaler

definition new_ProphetForecaster :: "'f ProphetForecaster" where
  "new_ProphetForecaster = \<lparr>pf_model = None, pf_scaler = new_MinMaxScaler\<rparr>"

definition default_params :: "string \<rightharpoonup> json" where
  "default_params =
     [''yearly_seasonality'' \<mapsto> JBool True,
      ''weekly_seasonality'' \<mapsto> JBool True,
      ''daily_seasonality'' \<mapsto> JBool False,
      ''changepoint_prior_scale'' \<mapsto> JFloat 0.05,
      ''seasonality_prior_scale'' \<mapsto> JFloat 10.0]"

text \<open>
  \<open>ProphetForecaster.train\<close>: the metrics or the exception raised, and the forecaster as
  the call leaves it. The Prophet object is stored in \<open>self.model\<close> before it is fitted.
\<close>

definition Prophet_train ::
  "'f prophet_lib \<Rightarrow> 'f ProphetForecaster \<Rightarrow> dataframe \<Rightarrow> (string \<rightharpoonup> json) option
     \<Rightarrow> (py_exception + metrics) \<times> 'f ProphetForecaster" where
  "Prophet_train lib self data parameters =
     (let params = (case parameters of None \<Rightarrow> default_params
                    | Some d \<Rightarrow> default_params ++ d)
      in case check_kwargs lib params of
           Some e \<Rightarrow> (Inl e, self)
         | None \<Rightarrow>
             (case Prophet_fit lib params data of
                (Some e, p) \<Rightarrow> (Inl e, self\<lparr>pf_model := Some p\<rparr>)
              | (None, p) \<Rightarrow>
                  (let self1 = self\<lparr>pf_model := Some p\<rparr>
                   in case Prophet_predict lib p (map fst data) of
                        Inl e \<Rightarrow> (Inl e, self1)
                      | Inr forecast \<Rightarrow>
                          (let mape = mean_absolute_percentage_error (map snd data)
                                        (map yhat forecast);
                               rmse = sqrt (mean_squared_error (map snd data)
                                        (map yhat forecast))
                           in (Inr \<lparr>mape = mape, rmse = rmse, accuracy = 1 - mape\<rparr>, self1)))))"

text \<open>\<open>ProphetForecaster.forecast\<close> with the daily frequency.\<close>

definition Prophet_forecast ::
  "'f prophet_lib \<Rightarrow> 'f ProphetForecaster \<Rightarrow> int \<Rightarrow> py_exception + forecast_row list" where
  "Prophet_forecast lib self periods =
     (case pf_model self of
        None \<Rightarrow> Inl model_not_trained
      | Some p \<Rightarrow>
          (case make_future_dataframe p periods of
             Inl e \<Rightarrow> Inl e
           | Inr future \<Rightarrow> Prophet_predict lib p future))"

text \<open>\<open>ProphetForecaster.save\<close> and \<open>load\<close>, with the file system as a parameter.\<close>

definition Prophet_save ::
  "('f Prophet \<Rightarrow> string \<Rightarrow> py_exception option) \<Rightarrow> 'f ProphetForecaster \<Rightarrow> string
     \<Rightarrow> py_exception option" where
  "Prophet_save dump self path =
     (case pf_model self of None \<Rightarrow> None | Some p \<Rightarrow> dump p path)"


text \<open>
  A stand-in for the Prophet library, for concrete runs: every keyword argument is
  accepted, fitting returns the mean of the observations, and the prediction for every
  date is that mean with a band of 0.1 on either side.
\<close>

definition demo_prophet :: "real prophet_lib" where
  "demo_prophet = \<lparr>check_kwargs = (\<lambda>params. None),
                    optimize = (\<lambda>params df. Inr (mean (map snd df))),
                    predict_date = (\<lambda>f d. (f, f - 0.1, f + 0.1))\<rparr>"


section \<open>The endpoints\<close>

record HistoricalDataPoint =
  hdp_date :: string
  hdp_value :: real
  hdp_metadata :: "(string \<rightharpoonup> json) option"

record ForecastRequest =
  fq_propertyId :: string
  startDate :: string
  endDate :: string
  fq_modelType :: string
  historicalData :: "HistoricalDataPoint list option"

record ForecastResponse =
  fr_propertyId :: string
  fr_modelType :: string
  forecast :: "ForecastPoint list"
  fr_accuracy :: "real option"
  fr_mape :: "real option"
  generatedAt :: string

text \<open>
  The list comprehension that builds the rows of the data frame; \<open>pd.to_datetime\<close>, a
  parameter, parses a date or raises.
\<close>

fun frame_rows ::
  "(string \<Rightarrow> py_exception + timestamp) \<Rightarrow> HistoricalDataPoint list \<Rightarrow> py_exception + dataframe" where
  "frame_rows to_datetime [] = Inr []"
| "frame_rows to_datetime (point # points) =
     (case to_datetime (hdp_date point) of
        Inl e \<Rightarrow> Inl e
      | Inr d \<Rightarrow>
          (case frame_rows to_datetime points of
             Inl e \<Rightarrow> Inl e
           | Inr rows \<Rightarrow> Inr ((d, hdp_value point) # rows)))"

text \<open>The point made from a row of the forecast frame, with the confidence 0.8.\<close>

definition row_point :: "forecast_row \<Rightarrow> ForecastPoint" where
  "row_point row =
     \<lparr>date = ds row, predictedValue = yhat row, lowerBound = Some (yhat_lower row),
      upperBound = Some (yhat_upper row), confidence = 0.8\<rparr>"

text \<open>
  The body of the \<open>try\<close> block of \<open>generate_forecast\<close>. The loop over the rows of the
  forecast frame keeps, in order, the rows dated within the requested window.
\<close>

definition generate_forecast_body ::
  "'f prophet_lib \<Rightarrow> (string \<Rightarrow> py_exception + timestamp) \<Rightarrow> string \<Rightarrow> ForecastRequest
     \<Rightarrow> py_exception + ForecastResponse" where
  "generate_forecast_body lib to_datetime utcnow request =
     (case to_datetime (startDate request) of
        Inl e \<Rightarrow> Inl e
      | Inr start_date \<Rightarrow>
     (case to_datetime (endDate request) of
        Inl e \<Rightarrow> Inl e
      | Inr end_date \<Rightarrow>
     (let periods = timedelta_days (end_date - start_date) + 1;
          forecaster = new_ProphetForecaster
      in case historicalData request of
           Some (point # points) \<Rightarrow>
             (case frame_rows to_datetime (point # points) of
                Inl e \<Rightarrow> Inl e
              | Inr df \<Rightarrow>
             (case Prophet_train lib forecaster df None of
                (Inl e, forecaster1) \<Rightarrow> Inl e
              | (Inr metrics, forecaster1) \<Rightarrow>
             (case Prophet_forecast lib forecaster1 periods of
                Inl e \<Rightarrow> Inl e
              | Inr forecast_df \<Rightarrow>
                  Inr \<lparr>fr_propertyId = fq_propertyId request,
                       fr_modelType = fq_modelType request,
                       forecast = map row_point
                         (filter (\<lambda>row. ds row \<ge> start_date \<and> ds row \<le> end_date) forecast_df),
                       fr_accuracy = Some (accuracy metrics),
                       fr_mape = Some (mape metrics),
                       generatedAt = utcnow\<rparr>)))
         | _ \<Rightarrow>
             (case generate_fallback_forecast start_date end_date of
                Inl e \<Rightarrow> Inl e
              | Inr forecast_points \<Rightarrow>
                  Inr \<lparr>fr_propertyId = fq_propertyId request,
                       fr_modelType = fq_modelType request,
                       forecast = forecast_points,
                       fr_accuracy = Some 0.8,
                       fr_mape = Some 0.2,
                       generatedAt = utcnow\<rparr>))))"

definition generate_forecast ::
  "'f prophet_lib \<Rightarrow> (string \<Rightarrow> py_exception + timestamp) \<Rightarrow> string \<Rightarrow> ForecastRequest
     \<Rightarrow> http_exception + ForecastResponse" where
  "generate_forecast lib to_datetime utcnow request =
     (case generate_forecast_body lib to_datetime utcnow request of
        Inl e \<Rightarrow> Inl (HTTPException 500 (exc_str e))
      | Inr r \<Rightarrow> Inr r)"


section \<open>Training jobs\<close>

text \<open>
  An entry of the dictionary \<open>training_jobs\<close>. A key that the entry does not have reads
  as \<open>None\<close>, as \<open>job.get\<close> reads it.
\<close>

record TrainingJob =
  status :: string
  tj_modelType :: string
  startedAt :: string
  tj_accuracy :: "real option"
  tj_mape :: "real option"
  completedAt :: "string option"
  modelPath :: "string option"
  errorMessage :: "string option"
  failedAt :: "string option"

type_synonym registry = "string \<rightharpoonup> TrainingJob"

record TrainingRequest =
  tq_modelType :: string
  tq_propertyId :: "string option"
  trainingData :: "HistoricalDataPoint list"
  tq_parameters :: "(string \<rightharpoonup> json) option"

record TrainingResponse =
  jobId :: string
  tr_modelType :: string
  tr_status :: string
  tr_accuracy :: "real option"
  tr_mape :: "real option"
  tr_errorMessage :: "string option"

text \<open>
  The service state: the registry, and the background tasks that were added and have
  not run yet.
\<close>

record service =
  training_jobs :: registry
  background_tasks :: "(string \<times> TrainingRequest) list"

text \<open>
  \<open>POST /train\<close>. The identifier that \<open>uuid.uuid4()\<close> returns and the clock reading are
  parameters.
\<close>

definition train_model ::
  "service \<Rightarrow> string \<Rightarrow> string \<Rightarrow> TrainingRequest \<Rightarrow> service \<times> TrainingResponse" where
  "train_model s job_id utcnow request =
     (s\<lparr>training_jobs := (training_jobs s)(job_id \<mapsto>
           \<lparr>status = ''PENDING'', tj_modelType = tq_modelType request, startedAt = utcnow,
            tj_accuracy = None, tj_mape = None, completedAt = None, modelPath = None,
            errorMessage = None, failedAt = None\<rparr>),
        background_tasks := background_tasks s @ [(job_id, request)]\<rparr>,
      \<lparr>jobId = job_id, tr_modelType = tq_modelType request, tr_status = ''PENDING'',
       tr_accuracy = None, tr_mape = None, tr_errorMessage = None\<rparr>)"

text \<open>\<open>GET /train/status/{job_id}\<close>.\<close>

definition get_training_status :: "registry \<Rightarrow> string \<Rightarrow> http_exception + TrainingResponse" where
  "get_training_status jobs job_id =
     (case jobs job_id of
        None \<Rightarrow> Inl (HTTPException 404 ''Training job not found'')
      | Some job \<Rightarrow>
          Inr \<lparr>jobId = job_id, tr_modelType = tj_modelType job, tr_status = status job,
               tr_accuracy = tj_accuracy job, tr_mape = tj_mape job,
               tr_errorMessage = errorMessage job\<rparr>)"

text \<open>What the background task takes from outside the program.\<close>

record ('m, 'f) environment =
  keras_lib :: "'m keras"
  prophet :: "'f prophet_lib"
  to_datetime :: "string \<Rightarrow> py_exception + timestamp"
  model_save :: "'m \<Rightarrow> string \<Rightarrow> py_exception option"
  dump_scaler :: "MinMaxScaler \<Rightarrow> string \<Rightarrow> py_exception option"
  dump_prophet :: "'f Prophet \<Rightarrow> string \<Rightarrow> py_exception option"
  MODELS_DIR :: string

text \<open>\<open>os.path.join\<close> of a directory and a relative name.\<close>

definition path_join :: "string \<Rightarrow> string \<Rightarrow> string" where
  "path_join dir name =
     (if dir = [] then name
      else if last dir = CHR ''/'' then dir @ name
      else dir @ ''/'' @ name)"

text \<open>\<open>request.propertyId or 'global'\<close>.\<close>

definition property_or_global :: "string option \<Rightarrow> string" where
  "property_or_global p = (case p of None \<Rightarrow> ''global'' | Some s \<Rightarrow> if s = [] then ''global'' else s)"

text \<open>\<open>df['y'].values\<close>: the frame without rows has no column \<open>y\<close>.\<close>

definition column_y :: "dataframe \<Rightarrow> py_exception + real list" where
  "column_y df = (if df = [] then Inl (PyExc ''KeyError'' (quoted ''y'')) else Inr (map snd df))"

text \<open>
  The \<open>try\<close> block of \<open>train_model_background\<close> after its first line: data preparation,
  training and saving. It gives the metrics and the path of the artifact, or the
  exception raised. \<open>stamp\<close> is the clock reading in the format \<open>%Y%m%d_%H%M%S\<close>.
\<close>

definition background_body ::
  "('m, 'f) environment \<Rightarrow> string \<Rightarrow> TrainingRequest \<Rightarrow> py_exception + metrics \<times> string" where
  "background_body env stamp request =
     (case frame_rows (to_datetime env) (trainingData request) of
        Inl e \<Rightarrow> Inl e
      | Inr df \<Rightarrow>
          if tq_modelType request = ''prophet'' then
            (case Prophet_train (prophet env) new_ProphetForecaster df (tq_parameters request) of
               (Inl e, forecaster) \<Rightarrow> Inl e
             | (Inr metrics, forecaster) \<Rightarrow>
                 (let model_path = path_join (MODELS_DIR env)
                        (''prophet_'' @ property_or_global (tq_propertyId request) @ ''_''
                           @ stamp @ ''.pkl'')
                  in case Prophet_save (dump_prophet env) forecaster model_path of
                       Some e \<Rightarrow> Inl e
                     | None \<Rightarrow> Inr (metrics, model_path)))
          else if tq_modelType request = ''lstm'' then
            (case column_y df of
               Inl e \<Rightarrow> Inl e
             | Inr data \<Rightarrow>
            (case LSTM_train (keras_lib env) (new_LSTMForecaster 30) data (tq_parameters request) of
               (Inl e, forecaster) \<Rightarrow> Inl e
             | (Inr metrics, forecaster) \<Rightarrow>
                 (let model_path = path_join (MODELS_DIR env)
                        (''lstm_'' @ property_or_global (tq_propertyId request) @ ''_'' @ stamp)
                  in case LSTM_save (model_save env) (dump_scaler env) forecaster model_path of
                       Some e \<Rightarrow> Inl e
                     | None \<Rightarrow> Inr (metrics, model_path))))
          else Inl (PyExc ''ValueError'' (''Unknown model type: '' @ tq_modelType request)))"

text \<open>The three writes to the registry; each looks the job up and raises if it is missing.\<close>

definition job_missing :: "string \<Rightarrow> py_exception" where
  "job_missing job_id = PyExc ''KeyError'' (quoted job_id)"

definition set_in_progress :: "registry \<Rightarrow> string \<Rightarrow> py_exception + registry" where
  "set_in_progress jobs job_id =
     (case jobs job_id of
        None \<Rightarrow> Inl (job_missing job_id)
      | Some job \<Rightarrow> Inr (jobs(job_id \<mapsto> job\<lparr>status := ''IN_PROGRESS''\<rparr>)))"

definition set_completed ::
  "registry \<Rightarrow> string \<Rightarrow> metrics \<Rightarrow> string \<Rightarrow> string \<Rightarrow> py_exception + registry" where
  "set_completed jobs job_id metrics model_path utcnow =
     (case jobs job_id of
        None \<Rightarrow> Inl (job_missing job_id)
      | Some job \<Rightarrow>
          Inr (jobs(job_id \<mapsto> job\<lparr>status := ''COMPLETED'',
                                     tj_accuracy := Some (accuracy metrics),
                                     tj_mape := Some (mape metrics),
                                     completedAt := Some utcnow,
                                     modelPath := Some model_path\<rparr>)))"

definition set_failed :: "registry \<Rightarrow> string \<Rightarrow> py_exception \<Rightarrow> string \<Rightarrow> py_exception + registry" where
  "set_failed jobs job_id e utcnow =
     (case jobs job_id of
        None \<Rightarrow> Inl (job_missing job_id)
      | Some job \<Rightarrow>
          Inr (jobs(job_id \<mapsto> job\<lparr>status := ''FAILED'',
                                     errorMessage := Some (exc_str e),
                                     failedAt := Some utcnow\<rparr>)))"

text \<open>
  \<open>train_model_background\<close>. The result is the exception that leaves the task, if the
  handler itself raises, or the registry at the end of the task.
\<close>

definition train_model_background ::
  "('m, 'f) environment \<Rightarrow> string \<Rightarrow> string \<Rightarrow> registry \<Rightarrow> string \<Rightarrow> TrainingRequest
     \<Rightarrow> py_exception + registry" where
  "train_model_background env stamp utcnow jobs job_id request =
     (case set_in_progress jobs job_id of
        Inl e \<Rightarrow> set_failed jobs job_id e utcnow
      | Inr jobs1 \<Rightarrow>
          (case background_body env stamp request of
             Inl e \<Rightarrow> set_failed jobs1 job_id e utcnow
           | Inr (metrics, model_path) \<Rightarrow>
               (case set_completed jobs1 job_id metrics model_path utcnow of
                  Inl e \<Rightarrow> set_failed jobs1 job_id e utcnow
                | Inr jobs2 \<Rightarrow> Inr jobs2)))"

text \<open>The place of a status in the chain from pending to finished.\<close>

definition status_rank :: "string \<Rightarrow> nat" where
  "status_rank st =
     (if st = ''PENDING'' then 0 else if st = ''IN_PROGRESS'' then 1 else 2)"

definition terminal :: "string \<Rightarrow> bool" where
  "terminal st \<longleftrightarrow> st = ''COMPLETED'' \<or> st = ''FAILED''"

text \<open>A stand-in environment for concrete runs: dates are the strings listed, and
  writing a file succeeds.\<close>

definition demo_dates :: "string \<Rightarrow> py_exception + timestamp" where
  "demo_dates s =
     (if s = ''2024-01-01'' then Inr (Timestamp 2024 1 1)
      else if s = ''2024-01-02'' then Inr (Timestamp 2024 1 2)
      else if s = ''2024-01-03'' then Inr (Timestamp 2024 1 3)
      else if s = ''2024-07-06'' then Inr (Timestamp 2024 7 6)
      else if s = ''2024-07-07'' then Inr (Timestamp 2024 7 7)
      else Inl (PyExc ''DateParseError'' (''Unknown datetime string format, unable to parse: '' @ s)))"

definition demo_env :: "(unit, real) environment" where
  "demo_env = \<lparr>keras_lib = demo_keras, prophet = demo_prophet, to_datetime = demo_dates,
                model_save = (\<lambda>m path. None), dump_scaler = (\<lambda>sc path. None),
                dump_prophet = (\<lambda>p path. None), MODELS_DIR = ''/app/models''\<rparr>"


text \<open>
  A training request for concrete runs: the sequence-window strategy on five
  observations, fewer than the window length 30.
\<close>

definition five_observations :: TrainingRequest where
  "five_observations =
     \<lparr>tq_modelType = ''lstm'', tq_propertyId = None,
      trainingData =
        [\<lparr>hdp_date = ''2024-01-01'', hdp_value = 1, hdp_metadata = None\<rparr>,
         \<lparr>hdp_date = ''2024-01-02'', hdp_value = 2, hdp_metadata = None\<rparr>,
         \<lparr>hdp_date = ''2024-01-03'', hdp_value = 3, hdp_metadata = None\<rparr>,
         \<lparr>hdp_date = ''2024-07-06'', hdp_value = 4, hdp_metadata = None\<rparr>,
         \<lparr>hdp_date = ''2024-07-07'', hdp_value = 5, hdp_metadata = None\<rparr>],
      tq_parameters = None\<rparr>"

definition no_jobs :: service where
  "no_jobs = \<lparr>training_jobs = Map.empty, background_tasks = []\<rparr>"


text \<open>
  The extended timeline of a model trained on a frame: the sorted distinct dates of the
  history, then \<open>periods\<close> daily steps after the last of them.
\<close>

definition extended_timeline :: "dataframe \<Rightarrow> int \<Rightarrow> timestamp list" where
  "extended_timeline df periods =
     (let h = sort (remdups (map fst df))
      in h @ map (\<lambda>k. Max (set h) + k * NS_PER_DAY) [1..periods])"

text \<open>Two forecast requests for concrete runs, on a history of two days in January.\<close>

definition january_history :: "HistoricalDataPoint list" where
  "january_history =
     [\<lparr>hdp_date = ''2024-01-01'', hdp_value = 1, hdp_metadata = None\<rparr>,
      \<lparr>hdp_date = ''2024-01-02'', hdp_value = 3, hdp_metadata = None\<rparr>]"

definition july_request :: ForecastRequest where
  "july_request =
     \<lparr>fq_propertyId = ''p1'', startDate = ''2024-07-06'', endDate = ''2024-07-07'',
      fq_modelType = ''occupancy'', historicalData = Some january_history\<rparr>"

definition january_request :: ForecastRequest where
  "january_request =
     \<lparr>fq_propertyId = ''p1'', startDate = ''2024-01-02'', endDate = ''2024-01-03'',
      fq_modelType = ''occupancy'', historicalData = Some january_history\<rparr>"


text \<open>
  The service as a transition system. A step is a submission under an identifier that
  the registry does not hold, or the run of one of the background tasks that wait; the
  task has no point of suspension, so it runs from its first line to its last in one
  step.
\<close>

inductive service_step :: "('m, 'f) environment \<Rightarrow> service \<Rightarrow> service \<Rightarrow> bool"
  for env :: "('m, 'f) environment" where
  submit:
    "job_id \<notin> dom (training_jobs s)
       \<Longrightarrow> service_step env s (fst (train_model s job_id utcnow request))"
| run:
    "background_tasks s = before @ (job_id, request) # after
       \<Longrightarrow> train_model_background env stamp utcnow (training_jobs s) job_id request = Inr jobs'
       \<Longrightarrow> service_step env s \<lparr>training_jobs = jobs', background_tasks = before @ after\<rparr>"

text \<open>Every task that waits belongs to a job of its own that is still PENDING.\<close>

definition tasks_pending :: "service \<Rightarrow> bool" where
  "tasks_pending s \<longleftrightarrow>
     distinct (map fst (background_tasks s))
     \<and> (\<forall>j \<in> set (map fst (background_tasks s)).
           \<exists>job. training_jobs s j = Some job \<and> status job = ''PENDING'')"


chapter \<open>Properties\<close>

section \<open>The price optimiser\<close>


lemma occupancy_multiplier_not_number:
  "as_number v = None \<Longrightarrow> \<exists>e. occupancy_multiplier v = Inl e"
  by (simp add: occupancy_multiplier_def py_ge_float_def)







section \<open>The fallback forecast\<close>

lemma mod_twelve_range: "1 \<le> (x::int) mod 12 + 1 \<and> x mod 12 + 1 \<le> 12"
  by simp

lemma month_range: "1 \<le> month ts \<and> month ts \<le> 12"
  unfolding month_def month_of_day_def Let_def by (rule mod_twelve_range)

lemma dayofweek_range: "0 \<le> dayofweek ts \<and> dayofweek ts \<le> 6"
  by (simp add: dayofweek_def)

lemma seasonal_map_total:
  assumes "1 \<le> m" and "m \<le> 12"
  shows "seasonal_map m = Some (seasonalFactor m)"
proof -
  from assms have "m = 1 \<or> m = 2 \<or> m = 3 \<or> m = 4 \<or> m = 5 \<or> m = 6 \<or> m = 7 \<or> m = 8
      \<or> m = 9 \<or> m = 10 \<or> m = 11 \<or> m = 12" by arith
  then show ?thesis
    by (auto simp: seasonal_map_def seasonalFactor_def)
qed

lemma weekend_factor_eq:
  "(if dayofweek ts \<ge> 5 then 1.2 else 1.0) = weekendFactor (dayofweek ts)"
  using dayofweek_range [of ts] by (auto simp: weekendFactor_def)

lemma fallback_point_spec: "fallback_point ts = Inr (spec_fallback_point ts)"
proof -
  have sm: "seasonal_map (month ts) = Some (seasonalFactor (month ts))"
    using month_range [of ts] by (simp add: seasonal_map_total)
  show ?thesis
    unfolding fallback_point_def spec_fallback_point_def Let_def sm weekend_factor_eq
    by (simp add: clamp_def min_def max_def)
qed

lemma day_count_step:
  assumes "c \<le> e"
  shows "day_count c e = Suc (day_count (c + NS_PER_DAY) e)"
proof (cases "c + NS_PER_DAY \<le> e")
  case True
  have "(e - c) div NS_PER_DAY = (e - (c + NS_PER_DAY)) div NS_PER_DAY + 1"
    by (simp add: NS_PER_DAY_def algebra_simps div_plus_div_distrib_dvd_left)
  moreover have "0 \<le> (e - (c + NS_PER_DAY)) div NS_PER_DAY"
    using True by (simp add: NS_PER_DAY_def pos_imp_zdiv_nonneg_iff)
  ultimately show ?thesis
    using True assms by (simp add: day_count_def timedelta_days_def nat_add_distrib)
next
  case False
  then have "(e - c) div NS_PER_DAY = 0"
    using assms by (simp add: NS_PER_DAY_def)
  then show ?thesis
    using False assms by (simp add: day_count_def timedelta_days_def)
qed

lemma day_steps_Suc: "day_steps s (Suc n) = s # day_steps (s + NS_PER_DAY) n"
  by (simp add: day_steps_def upt_conv_Cons map_Suc_upt [symmetric] algebra_simps del: upt_Suc)

lemma fallback_loop_eq:
  "fallback_loop c e acc = Inr (acc @ map spec_fallback_point (day_steps c (day_count c e)))"
proof (induction c e acc rule: fallback_loop.induct)
  case (1 c e acc)
  show ?case
  proof (cases "c \<le> e")
    case True
    have "fallback_loop c e acc = fallback_loop (c + NS_PER_DAY) e (acc @ [spec_fallback_point c])"
      using True by (subst fallback_loop.simps) (simp add: fallback_point_spec)
    also have "\<dots> = Inr ((acc @ [spec_fallback_point c])
        @ map spec_fallback_point (day_steps (c + NS_PER_DAY) (day_count (c + NS_PER_DAY) e)))"
      using "1.IH" [OF True fallback_point_spec] .
    finally show ?thesis
      by (simp add: day_count_step [OF True] day_steps_Suc)
  next
    case False
    then show ?thesis
      by (subst fallback_loop.simps) (simp add: day_count_def day_steps_def)
  qed
qed

lemma generate_fallback_forecast_eq:
  "generate_fallback_forecast s e = Inr (map spec_fallback_point (day_steps s (day_count s e)))"
  unfolding generate_fallback_forecast_def by (simp only: fallback_loop_eq append_Nil)






lemma spec_fallback_point_bounds:
  "0 \<le> predictedValue (spec_fallback_point ts) \<and> predictedValue (spec_fallback_point ts) \<le> 1"
  by (simp add: spec_fallback_point_def Let_def clamp_def)

lemma july_saturday:
  "month (Timestamp 2024 7 6) = 7 \<and> dayofweek (Timestamp 2024 7 6) = 5"
  by (simp add: month_def month_of_day_def dayofweek_def day_number_def Timestamp_def
      days_from_civil_def NS_PER_DAY_def Let_def)

lemma july_saturday_point:
  "spec_fallback_point (Timestamp 2024 7 6) =
     \<lparr>date = Timestamp 2024 7 6, predictedValue = 0.81, lowerBound = Some 0.71,
      upperBound = Some 0.91, confidence = 0.5\<rparr>"
  by (simp add: spec_fallback_point_def july_saturday seasonalFactor_def weekendFactor_def
      clamp_def Let_def)


lemma day_steps_one: "day_steps s (Suc 0) = [s]"
  by (simp add: day_steps_def)

lemma day_steps_two: "day_steps s (Suc (Suc 0)) = [s, s + NS_PER_DAY]"
  by (simp add: day_steps_def)

lemma generate_single_day:
  "generate_fallback_forecast s s = Inr [spec_fallback_point s]"
  by (simp add: generate_fallback_forecast_eq day_count_def timedelta_days_def day_steps_one)

lemma generate_two_days:
  "generate_fallback_forecast s (s + NS_PER_DAY) =
     Inr [spec_fallback_point s, spec_fallback_point (s + NS_PER_DAY)]"
proof -
  have "day_count s (s + NS_PER_DAY) = Suc (Suc 0)"
    by (simp add: day_count_def timedelta_days_def NS_PER_DAY_def)
  then show ?thesis
    by (simp add: generate_fallback_forecast_eq day_steps_two)
qed

lemma spec_fallback_point_interval:
  fixes ts :: timestamp
  defines "p \<equiv> spec_fallback_point ts"
  shows "\<exists>lb ub. lowerBound p = Some lb \<and> upperBound p = Some ub
      \<and> 0 \<le> lb \<and> lb \<le> predictedValue p \<and> predictedValue p \<le> ub \<and> ub \<le> 1
      \<and> lb = clamp (predictedValue p - 0.1) 0 1 \<and> ub = clamp (predictedValue p + 0.1) 0 1"
  unfolding p_def spec_fallback_point_def Let_def
  by (simp add: clamp_def min_def max_def)



text \<open>
  Claim C9. Every point the fallback generator produces carries both bounds, with
  \<open>0 \<le> lowerBound \<le> predictedValue \<le> upperBound \<le> 1\<close>, the lower bound being
  \<open>clamp (predictedValue - 0.1) 0 1\<close> and the upper bound \<open>clamp (predictedValue + 0.1) 0 1\<close>.
\<close>

theorem C9_fallback_bounds:
  "\<exists>pts. generate_fallback_forecast start_date end_date = Inr pts
     \<and> (\<forall>p \<in> set pts. \<exists>lb ub. lowerBound p = Some lb \<and> upperBound p = Some ub
           \<and> 0 \<le> lb \<and> lb \<le> predictedValue p \<and> predictedValue p \<le> ub \<and> ub \<le> 1
           \<and> lb = clamp (predictedValue p - 0.1) 0 1
           \<and> ub = clamp (predictedValue p + 0.1) 0 1)"
proof -
  let ?pts = "map spec_fallback_point (day_steps start_date (day_count start_date end_date))"
  have "generate_fallback_forecast start_date end_date = Inr ?pts"
    by (rule generate_fallback_forecast_eq)
  moreover have "\<forall>p \<in> set ?pts. \<exists>lb ub. lowerBound p = Some lb \<and> upperBound p = Some ub
           \<and> 0 \<le> lb \<and> lb \<le> predictedValue p \<and> predictedValue p \<le> ub \<and> ub \<le> 1
           \<and> lb = clamp (predictedValue p - 0.1) 0 1
           \<and> ub = clamp (predictedValue p + 0.1) 0 1"
    using spec_fallback_point_interval by auto
  ultimately show ?thesis by blast
qed

text \<open>
  Claim C9 at the one-day range 2024-07-06: the list is not empty, and its point has the
  bounds 0.71 and 0.91 around 0.81.
\<close>

theorem C9_fallback_bounds_witness:
  "\<exists>pts. generate_fallback_forecast (Timestamp 2024 7 6) (Timestamp 2024 7 6) = Inr pts
     \<and> pts = [\<lparr>date = Timestamp 2024 7 6, predictedValue = 0.81, lowerBound = Some 0.71,
                upperBound = Some 0.91, confidence = 0.5\<rparr>]
     \<and> (\<forall>p \<in> set pts. \<exists>lb ub. lowerBound p = Some lb \<and> upperBound p = Some ub
           \<and> 0 \<le> lb \<and> lb \<le> predictedValue p \<and> predictedValue p \<le> ub \<and> ub \<le> 1
           \<and> lb = clamp (predictedValue p - 0.1) 0 1
           \<and> ub = clamp (predictedValue p + 0.1) 0 1)"
  using C9_fallback_bounds [of "Timestamp 2024 7 6" "Timestamp 2024 7 6"]
  by (simp only: generate_single_day july_saturday_point sum.inject) blast

section \<open>The sequence-window forecaster\<close>


lemma fit_transform_nonempty:
  "data \<noteq> [] \<Longrightarrow> fit_transform sc data =
     (Inr (normalized data), \<lparr>data_range = Some (list_min data, list_max data)\<rparr>)"
  by (simp add: fit_transform_def normalized_def Let_def)

lemma length_normalized: "length (normalized xs) = length xs"
  by (simp add: normalized_def)

lemma prepare_data_nonempty:
  assumes "data \<noteq> []"
  shows "prepare_data self data =
    (Inr (map (\<lambda>i. take (sequence_length self) (drop i (normalized data)))
            [0..<length data - sequence_length self],
          map (\<lambda>i. normalized data ! (i + sequence_length self))
            [0..<length data - sequence_length self]),
     self\<lparr>scaler := \<lparr>data_range = Some (list_min data, list_max data)\<rparr>\<rparr>)"
  using assms by (simp add: prepare_data_def fit_transform_nonempty Let_def length_normalized)

lemma prepare_data_empty:
  "prepare_data self [] = (Inl no_samples, self\<lparr>scaler := \<lparr>data_range = None\<rparr>\<rparr>)"
  by (simp add: prepare_data_def fit_transform_def)





lemma LSTM_train_short:
  assumes "length data \<le> sequence_length self"
  shows "LSTM_train lib self data parameters =
     (Inl (if data = [] then no_samples else PyExc ''IndexError'' ''tuple index out of range''),
      self\<lparr>scaler := \<lparr>data_range = (if data = [] then None
                                   else Some (list_min data, list_max data))\<rparr>\<rparr>)"
proof (cases "data = []")
  case True
  then show ?thesis by (simp add: LSTM_train_def prepare_data_empty)
next
  case False
  then show ?thesis
    using assms by (simp add: LSTM_train_def prepare_data_nonempty shape_1_def)
qed

text \<open>
  Claim C1, as amended. For every training series of length \<open>N\<close> and window length \<open>L\<close>
  with \<open>N \<le> L\<close>, \<open>train\<close> fails before any network is built or fitted: the forecaster's
  model is what it was, and the outcome does not depend on the network library. The
  exception is the \<open>IndexError\<close> of reading \<open>X.shape[1]\<close> on the empty array of examples
  (for an empty series, the scaler's \<open>ValueError\<close>); the code has no dedicated
  insufficient-data error. A training request with 5 observations and the default window
  length 30 fails this way.
\<close>

theorem C1_short_series_fails_before_model:
  assumes "length data \<le> sequence_length self"
  shows "fst (LSTM_train lib self data parameters)
           = Inl (if data = [] then no_samples
                  else PyExc ''IndexError'' ''tuple index out of range'')
       \<and> model (snd (LSTM_train lib self data parameters)) = model self
       \<and> LSTM_train lib self data parameters = LSTM_train lib' self data parameters
       \<and> fst (LSTM_train lib (new_LSTMForecaster 30) [1, 2, 3, 4, 5] parameters)
           = Inl (PyExc ''IndexError'' ''tuple index out of range'')
       \<and> model (snd (LSTM_train lib (new_LSTMForecaster 30) [1, 2, 3, 4, 5] parameters)) = None"
proof -
  have five: "length [1, 2, 3, 4, 5 :: real] \<le> sequence_length (new_LSTMForecaster 30 :: 'a LSTMForecaster)"
    by (simp add: new_LSTMForecaster_def)
  show ?thesis
    by (simp add: LSTM_train_short [OF assms] LSTM_train_short [OF five])
      (simp add: new_LSTMForecaster_def)
qed

text \<open>
  Claim C1, as amended, at three observations and the window length 3, with the
  stand-in library.
\<close>

theorem C1_short_series_fails_before_model_witness:
  "length [2, 4, 6 :: real] \<le> sequence_length (new_LSTMForecaster 3 :: unit LSTMForecaster)
   \<and> fst (LSTM_train demo_keras (new_LSTMForecaster 3) [2, 4, 6] None)
       = Inl (PyExc ''IndexError'' ''tuple index out of range'')
   \<and> model (snd (LSTM_train demo_keras (new_LSTMForecaster 3) [2, 4, 6] None)) = None"
proof -
  have h: "length [2, 4, 6 :: real] \<le> sequence_length (new_LSTMForecaster 3 :: unit LSTMForecaster)"
    by (simp add: new_LSTMForecaster_def)
  show ?thesis
    using h C1_short_series_fails_before_model [OF h, where lib = demo_keras and parameters = None
        and lib' = demo_keras]
    by (simp add: new_LSTMForecaster_def)
qed

text \<open>
  Claim C1 as stated fails on the error it names: with 5 observations and the default
  window length 30 the exception that \<open>train\<close> raises is the builtin \<open>IndexError\<close> with
  the text \<open>tuple index out of range\<close>, not an \<open>InsufficientDataError\<close>.
\<close>

theorem C1_counterexample:
  "fst (LSTM_train demo_keras (new_LSTMForecaster 30) [1, 2, 3, 4, 5] None)
     = Inl (PyExc ''IndexError'' ''tuple index out of range'')
   \<and> exc_type (PyExc ''IndexError'' ''tuple index out of range'') \<noteq> ''InsufficientDataError''"
proof -
  have five: "length [1, 2, 3, 4, 5 :: real] \<le> sequence_length (new_LSTMForecaster 30 :: unit LSTMForecaster)"
    by (simp add: new_LSTMForecaster_def)
  show ?thesis
    by (simp add: LSTM_train_short [OF five])
qed

lemma split_index_div: "split_index n = (4 * n) div 5"
proof -
  have "real n * 0.8 = real (4 * n) / real 5" by simp
  then have "\<lfloor>real n * 0.8\<rfloor> = int ((4 * n) div 5)"
    by (simp only: floor_divide_of_nat_eq)
  then show ?thesis by (simp add: split_index_def)
qed

lemma split_index_less: "0 < n \<Longrightarrow> split_index n < n"
  by (simp add: split_index_div)

lemma shape_1_windows:
  assumes "l < length scaled"
  shows "shape_1 (map (\<lambda>i. take l (drop i scaled)) [0..<length scaled - l]) = Inr l"
proof -
  have "[0..<length scaled - l] = 0 # [Suc 0..<length scaled - l]"
    using assms by (simp add: upt_conv_Cons)
  then show ?thesis
    using assms by (simp add: shape_1_def)
qed

lemma inverse_transform_fitted:
  "data_range sc = Some r \<Longrightarrow> xs \<noteq> [] \<Longrightarrow> inverse_transform sc xs = Inr (map (unscale_value r) xs)"
  by (simp add: inverse_transform_def)

lemma transform_fitted:
  "data_range sc = Some r \<Longrightarrow> xs \<noteq> [] \<Longrightarrow> transform sc xs = Inr (map (scale_value r) xs)"
  by (simp add: transform_def)


lemma LSTM_train_fit_returns:
  assumes "sequence_length self < length data"
    and "\<And>m tr va ep bs. fst (keras_fit lib m tr va ep bs) = None"
  shows "\<exists>mt m'. LSTM_train lib self data parameters =
     (Inr mt, self\<lparr>scaler := \<lparr>data_range = Some (list_min data, list_max data)\<rparr>,
                   model := Some m'\<rparr>)"
proof -
  let ?l = "sequence_length self"
  let ?k = "length data - ?l"
  have ne: "data \<noteq> []" using assms(1) by auto
  have k: "0 < ?k" using assms(1) by simp
  have sh: "shape_1 (map (\<lambda>i. take ?l (drop i (normalized data))) [0..<?k]) = Inr ?l"
    using shape_1_windows [of ?l "normalized data"] assms(1)
    by (simp add: length_normalized)
  have val: "\<not> ?k \<le> split_index ?k"
    using split_index_less [OF k] by simp
  show ?thesis
    unfolding LSTM_train_def prepare_data_nonempty [OF ne]
    by (simp add: sh Let_def case_prod_beta assms(2) inverse_transform_def val) blast
qed

lemma forecast_loop_autoregress:
  "forecast_loop f n w ps = ps @ autoregress f n w"
  by (induction n arbitrary: w ps) (simp_all add: Let_def)

lemma length_autoregress: "length (autoregress f n w) = n"
  by (induction n arbitrary: w) simp_all

lemma autoregress_nth:
  assumes "w \<noteq> []" and "k < n"
  shows "autoregress f n w ! k = f (drop k (w @ take k (autoregress f n w)))"
  using assms
proof (induction n arbitrary: w k)
  case 0
  then show ?case by simp
next
  case (Suc n)
  show ?case
  proof (cases k)
    case 0
    then show ?thesis by simp
  next
    case (Suc j)
    let ?w' = "tl w @ [f w]"
    have j: "j < n" using Suc.prems(2) Suc by simp
    have "autoregress f n ?w' ! j = f (drop j (?w' @ take j (autoregress f n ?w')))"
      by (rule Suc.IH) (use j in simp_all)
    moreover have "drop (Suc j) (w @ take (Suc j) (f w # autoregress f n ?w'))
        = drop j (?w' @ take j (autoregress f n ?w'))"
      using Suc.prems(1) by (cases w) simp_all
    ultimately show ?thesis using Suc by simp
  qed
qed

lemma length_last_entries:
  "0 < l \<Longrightarrow> l \<le> length xs \<Longrightarrow> length (last_entries l xs) = l"
  by (simp add: last_entries_def)

lemma drop_is_last_entries:
  "length w = l \<Longrightarrow> length ps = k \<Longrightarrow> 0 < l \<Longrightarrow> drop k (w @ ps) = last_entries l (w @ ps)"
  by (simp add: last_entries_def)

lemma LSTM_forecast_trained:
  assumes "model self = Some m" and "data_range (scaler self) = Some r"
    and "0 < sequence_length self" and "sequence_length self \<le> length last_sequence"
  shows "LSTM_forecast lib self last_sequence periods =
     inverse_transform (scaler self)
       (autoregress (predict lib m) (nat periods)
          (last_entries (sequence_length self) (map (scale_value r) last_sequence)))"
proof -
  have ne: "last_sequence \<noteq> []" using assms(3,4) by auto
  have len: "length (last_entries (sequence_length self) (map (scale_value r) last_sequence))
      = sequence_length self"
    using assms(3,4) by (simp add: length_last_entries)
  show ?thesis
    by (simp add: LSTM_forecast_def assms(1) transform_fitted [OF assms(2) ne]
        reshape_window_def len forecast_loop_autoregress)
qed

text \<open>
  Claim C3, as amended. For every forecaster with a model and a fitted scaler, every
  window length \<open>L \<ge> 1\<close>, every input of at least \<open>L\<close> raw values and every
  \<open>periods \<ge> 1\<close>, \<open>forecast\<close> returns exactly \<open>periods\<close> values. The normalised
  predictions are the autoregressive sequence from the last \<open>L\<close> normalised inputs:
  prediction \<open>k\<close> is the network's value on the last \<open>L\<close> entries of that initial window
  followed by the \<open>k\<close> earlier predictions, so it depends on nothing else. The whole
  sequence is mapped back through the fitted scaler at the end.
\<close>

theorem C3_autoregressive_forecast:
  assumes "model self = Some m" and "data_range (scaler self) = Some r"
    and "0 < sequence_length self" and "sequence_length self \<le> length last_sequence"
    and "0 < periods"
  shows "\<exists>preds.
      LSTM_forecast lib self last_sequence periods = Inr (map (unscale_value r) preds)
    \<and> length (map (unscale_value r) preds) = nat periods
    \<and> preds = autoregress (predict lib m) (nat periods)
               (last_entries (sequence_length self) (map (scale_value r) last_sequence))
    \<and> (\<forall>k < nat periods. preds ! k =
          predict lib m
            (last_entries (sequence_length self)
               (last_entries (sequence_length self) (map (scale_value r) last_sequence)
                  @ take k preds)))"
proof -
  let ?l = "sequence_length self"
  let ?w = "last_entries ?l (map (scale_value r) last_sequence)"
  let ?preds = "autoregress (predict lib m) (nat periods) ?w"
  have len: "length ?w = ?l"
    using assms(3,4) by (simp add: length_last_entries)
  then have wne: "?w \<noteq> []" using assms(3) by auto
  have pne: "?preds \<noteq> []"
    using assms(5) length_autoregress [of "predict lib m" "nat periods" ?w] by auto
  have "LSTM_forecast lib self last_sequence periods = Inr (map (unscale_value r) ?preds)"
    by (simp only: LSTM_forecast_trained [OF assms(1-4)]
        inverse_transform_fitted [OF assms(2) pne])
  moreover have "length (map (unscale_value r) ?preds) = nat periods"
    by (simp add: length_autoregress)
  moreover have "\<forall>k < nat periods. ?preds ! k = predict lib m (last_entries ?l (?w @ take k ?preds))"
  proof (intro allI impI)
    fix k assume k: "k < nat periods"
    have tk: "length (take k ?preds) = k"
      using k by (simp add: length_autoregress)
    have "drop k (?w @ take k ?preds) = last_entries ?l (?w @ take k ?preds)"
      by (rule drop_is_last_entries [OF len tk assms(3)])
    then show "?preds ! k = predict lib m (last_entries ?l (?w @ take k ?preds))"
      using autoregress_nth [OF wne k, of "predict lib m"] by simp
  qed
  ultimately show ?thesis by blast
qed

lemma autoregress_two: "autoregress f 2 w = [f w, f (tl w @ [f w])]"
  by (simp add: numeral_2_eq_2)

text \<open>
  Claim C3, as amended, at a forecaster with the stand-in network, a scaler fitted on
  the range from 0 to 10 and the window length 2: from the inputs 5 and 10 two periods give
  7.5 (the mean of 0.5 and 1, scaled back) and 8.75 (the mean of 1 and 0.75).
\<close>

theorem C3_autoregressive_forecast_witness:
  "model \<lparr>model = Some (), scaler = \<lparr>data_range = Some (0, 10)\<rparr>, sequence_length = 2\<rparr> = Some ()
   \<and> (0::nat) < 2 \<and> 2 \<le> length [5, 10 :: real] \<and> (0::int) < 2
   \<and> LSTM_forecast demo_keras
        \<lparr>model = Some (), scaler = \<lparr>data_range = Some (0, 10)\<rparr>, sequence_length = 2\<rparr>
        [5, 10] 2 = Inr [7.5, 8.75]"
proof -
  let ?self = "\<lparr>model = Some (), scaler = \<lparr>data_range = Some (0, 10)\<rparr>, sequence_length = 2\<rparr>"
  have h1: "model ?self = Some ()" by simp
  have h2: "data_range (scaler ?self) = Some (0, 10)" by simp
  have h3: "0 < sequence_length ?self" by simp
  have h4: "sequence_length ?self \<le> length [5, 10 :: real]" by simp
  have h5: "(0::int) < 2" by simp
  from C3_autoregressive_forecast [OF h1 h2 h3 h4 h5, of demo_keras]
  have "LSTM_forecast demo_keras ?self [5, 10] 2 =
      Inr (map (unscale_value (0, 10))
        (autoregress (predict demo_keras ()) (nat 2)
           (last_entries (sequence_length ?self) (map (scale_value (0, 10)) [5, 10]))))"
    by auto
  then show ?thesis
    by (simp add: autoregress_two demo_keras_def mean_def last_entries_def
        scale_value_def unscale_value_def scale_factor_def min_offset_def)
qed

lemma LSTM_forecast_no_periods:
  assumes "model self = Some m" and "data_range (scaler self) = Some r"
    and "0 < sequence_length self" and "sequence_length self \<le> length last_sequence"
    and "periods \<le> 0"
  shows "LSTM_forecast lib self last_sequence periods = Inl no_samples_to_invert"
  using assms(5)
  by (simp add: LSTM_forecast_trained [OF assms(1-4)] inverse_transform_def assms(2))

text \<open>
  Claim C3 as stated fails at \<open>periods = 0\<close>: on a forecaster trained with the window
  length 2 the loop makes no pass, and the scaler's \<open>inverse_transform\<close> rejects the
  empty array of predictions, so \<open>forecast\<close> raises a \<open>ValueError\<close> instead of returning
  no values.
\<close>

theorem C3_counterexample:
  "\<not> isl (fst (LSTM_train demo_keras (new_LSTMForecaster 2) [0, 5, 10, 5] None))
   \<and> LSTM_forecast demo_keras
         (snd (LSTM_train demo_keras (new_LSTMForecaster 2) [0, 5, 10, 5] None)) [5, 10] 0
       = Inl no_samples_to_invert"
proof -
  let ?self = "new_LSTMForecaster 2 :: unit LSTMForecaster"
  have l: "sequence_length ?self < length [0, 5, 10, 5 :: real]"
    by (simp add: new_LSTMForecaster_def)
  have f: "fst (keras_fit demo_keras m tr va ep bs) = None" for m tr va ep bs
    by (simp add: demo_keras_def)
  from LSTM_train_fit_returns [of ?self "[0, 5, 10, 5]" demo_keras None, OF l f]
  obtain mt m' where t: "LSTM_train demo_keras ?self [0, 5, 10, 5] None =
      (Inr mt, ?self\<lparr>scaler := \<lparr>data_range = Some (list_min [0, 5, 10, 5], list_max [0, 5, 10, 5])\<rparr>,
                     model := Some m'\<rparr>)"
    by blast
  have "LSTM_forecast demo_keras
      (?self\<lparr>scaler := \<lparr>data_range = Some (list_min [0, 5, 10, 5], list_max [0, 5, 10, 5])\<rparr>,
              model := Some m'\<rparr>) [5, 10] 0 = Inl no_samples_to_invert"
    by (rule LSTM_forecast_no_periods [where m = m'
          and r = "(list_min [0, 5, 10, 5], list_max [0, 5, 10, 5])"])
      (simp_all add: new_LSTMForecaster_def)
  then show ?thesis by (simp only: t fst_conv snd_conv sum.disc simp_thms)
qed

section \<open>The guard of \<open>forecast\<close>\<close>










lemma Prophet_fit_returns:
  assumes "2 \<le> length df" and "optimize lib params df = Inr f"
  shows "Prophet_fit lib params df =
     (None, \<lparr>history_dates = Some (sort (remdups (map fst df))), fitted_params = Some f\<rparr>)"
proof -
  have "df \<noteq> []" using assms(1) by auto
  then show ?thesis
    using assms by (simp add: Prophet_fit_def Let_def)
qed

lemma Prophet_predict_fitted:
  assumes "history_dates p = Some h" and "fitted_params p = Some f" and "dates \<noteq> []"
  shows "Prophet_predict lib p dates = Inr (map (predicted_row lib f) (sort dates))"
  using assms by (simp add: Prophet_predict_def)

lemma Prophet_train_returns:
  assumes "2 \<le> length df"
    and "check_kwargs lib (case parameters of None \<Rightarrow> default_params
                            | Some d \<Rightarrow> default_params ++ d) = None"
    and "optimize lib (case parameters of None \<Rightarrow> default_params
                        | Some d \<Rightarrow> default_params ++ d) df = Inr f"
  shows "\<exists>mt. Prophet_train lib self df parameters =
     (Inr mt, self\<lparr>pf_model := Some \<lparr>history_dates = Some (sort (remdups (map fst df))),
                                        fitted_params = Some f\<rparr>\<rparr>)"
proof -
  have ne: "map fst df \<noteq> []" using assms(1) by auto
  show ?thesis
    unfolding Prophet_train_def Let_def
    by (simp add: assms(2) Prophet_fit_returns [OF assms(1,3)]
        Prophet_predict_fitted [OF _ _ ne])
qed




section \<open>Training jobs\<close>

lemma set_in_progress_present:
  "jobs job_id = Some job \<Longrightarrow>
     set_in_progress jobs job_id = Inr (jobs(job_id \<mapsto> job\<lparr>status := ''IN_PROGRESS''\<rparr>))"
  by (simp add: set_in_progress_def)

text \<open>The job entry that the task leaves: completed with the metrics, or failed.\<close>

lemma train_model_background_present:
  assumes "jobs job_id = Some job"
  shows "train_model_background env stamp utcnow jobs job_id request =
     Inr ((jobs(job_id \<mapsto> job\<lparr>status := ''IN_PROGRESS''\<rparr>))(job_id \<mapsto>
       (case background_body env stamp request of
          Inl e \<Rightarrow> job\<lparr>status := ''FAILED'', errorMessage := Some (exc_str e),
                       failedAt := Some utcnow\<rparr>
        | Inr (metrics, model_path) \<Rightarrow>
            job\<lparr>status := ''COMPLETED'', tj_accuracy := Some (accuracy metrics),
                 tj_mape := Some (mape metrics), completedAt := Some utcnow,
                 modelPath := Some model_path\<rparr>)))"
  using assms
  by (simp add: train_model_background_def set_in_progress_def
      set_failed_def set_completed_def split: sum.splits prod.splits)

lemma train_model_entry:
  "training_jobs (fst (train_model s job_id utcnow request)) job_id =
     Some \<lparr>status = ''PENDING'', tj_modelType = tq_modelType request, startedAt = utcnow,
           tj_accuracy = None, tj_mape = None, completedAt = None, modelPath = None,
           errorMessage = None, failedAt = None\<rparr>"
  by (simp add: train_model_def)




lemma frame_five_observations:
  "frame_rows demo_dates (trainingData five_observations) =
     Inr [(Timestamp 2024 1 1, 1), (Timestamp 2024 1 2, 2), (Timestamp 2024 1 3, 3),
          (Timestamp 2024 7 6, 4), (Timestamp 2024 7 7, 5)]"
  by (simp add: five_observations_def demo_dates_def)

lemma body_five_observations:
  "background_body demo_env stamp five_observations
     = Inl (PyExc ''IndexError'' ''tuple index out of range'')"
proof -
  have short: "length [1, 2, 3, 4, 5 :: real]
      \<le> sequence_length (new_LSTMForecaster 30 :: unit LSTMForecaster)"
    by (simp add: new_LSTMForecaster_def)
  have m: "tq_modelType five_observations = ''lstm''"
    by (simp add: five_observations_def)
  show ?thesis
    unfolding background_body_def
    by (simp add: demo_env_def frame_five_observations m column_y_def
        LSTM_train_short [OF short])
qed

text \<open>The stages of the task whose exceptions the body passes on.\<close>

lemma background_body_raises:
  "(frame_rows (to_datetime env) (trainingData request) = Inl e
      \<longrightarrow> background_body env stamp request = Inl e)
   \<and> (frame_rows (to_datetime env) (trainingData request) = Inr df
        \<and> tq_modelType request = ''prophet''
        \<and> fst (Prophet_train (prophet env) new_ProphetForecaster df (tq_parameters request)) = Inl e
      \<longrightarrow> background_body env stamp request = Inl e)
   \<and> (frame_rows (to_datetime env) (trainingData request) = Inr df
        \<and> tq_modelType request = ''prophet''
        \<and> Prophet_train (prophet env) new_ProphetForecaster df (tq_parameters request)
            = (Inr mt, pf)
        \<and> Prophet_save (dump_prophet env) pf
             (path_join (MODELS_DIR env)
                (''prophet_'' @ property_or_global (tq_propertyId request) @ ''_''
                   @ stamp @ ''.pkl'')) = Some e
      \<longrightarrow> background_body env stamp request = Inl e)
   \<and> (frame_rows (to_datetime env) (trainingData request) = Inr df
        \<and> tq_modelType request = ''lstm'' \<and> column_y df = Inr data
        \<and> fst (LSTM_train (keras_lib env) (new_LSTMForecaster 30) data (tq_parameters request))
            = Inl e
      \<longrightarrow> background_body env stamp request = Inl e)
   \<and> (frame_rows (to_datetime env) (trainingData request) = Inr df
        \<and> tq_modelType request = ''lstm'' \<and> column_y df = Inr data
        \<and> LSTM_train (keras_lib env) (new_LSTMForecaster 30) data (tq_parameters request)
            = (Inr mt, lf)
        \<and> LSTM_save (model_save env) (dump_scaler env) lf
             (path_join (MODELS_DIR env)
                (''lstm_'' @ property_or_global (tq_propertyId request) @ ''_'' @ stamp)) = Some e
      \<longrightarrow> background_body env stamp request = Inl e)"
  by (auto simp: background_body_def Let_def split: prod.splits sum.splits)

text \<open>
  Claim C7. For a job that the registry holds, if the body of the task (data
  preparation, training, saving the artifact) raises an exception, the task catches it:
  it ends without an exception and leaves the job FAILED with the text of the exception
  in \<open>errorMessage\<close>. The answer to the submission was PENDING without a message; a
  status poll after the task shows FAILED and the message.
\<close>

theorem C7_failure_recorded:
  assumes "jobs job_id = Some job"
    and "background_body env stamp request = Inl e"
  shows "train_model_background env stamp utcnow jobs job_id request =
           Inr (jobs(job_id \<mapsto> job\<lparr>status := ''FAILED'', errorMessage := Some (exc_str e),
                                       failedAt := Some utcnow\<rparr>))
       \<and> get_training_status
           (jobs(job_id \<mapsto> job\<lparr>status := ''FAILED'', errorMessage := Some (exc_str e),
                                   failedAt := Some utcnow\<rparr>)) job_id =
           Inr \<lparr>jobId = job_id, tr_modelType = tj_modelType job, tr_status = ''FAILED'',
                tr_accuracy = tj_accuracy job, tr_mape = tj_mape job,
                tr_errorMessage = Some (exc_str e)\<rparr>
       \<and> tr_status (snd (train_model s job_id started request)) = ''PENDING''
       \<and> tr_errorMessage (snd (train_model s job_id started request)) = None"
  using assms(2)
  by (simp add: train_model_background_present [where jobs = jobs and job = job
        and job_id = job_id, OF assms(1)]
      get_training_status_def train_model_def)

text \<open>
  Claim C7 at the request with five observations: the \<open>IndexError\<close> of the short
  series is caught, and the job \<open>job-1\<close> ends FAILED with its text.
\<close>

theorem C7_failure_recorded_witness:
  "training_jobs (fst (train_model no_jobs ''job-1'' ''t0'' five_observations)) ''job-1''
     = Some \<lparr>status = ''PENDING'', tj_modelType = ''lstm'', startedAt = ''t0'',
             tj_accuracy = None, tj_mape = None, completedAt = None, modelPath = None,
             errorMessage = None, failedAt = None\<rparr>
   \<and> background_body demo_env ''20240706_120000'' five_observations
       = Inl (PyExc ''IndexError'' ''tuple index out of range'')
   \<and> get_training_status
        (projr (train_model_background demo_env ''20240706_120000'' ''t1''
           (training_jobs (fst (train_model no_jobs ''job-1'' ''t0'' five_observations)))
           ''job-1'' five_observations)) ''job-1''
       = Inr \<lparr>jobId = ''job-1'', tr_modelType = ''lstm'', tr_status = ''FAILED'',
              tr_accuracy = None, tr_mape = None,
              tr_errorMessage = Some ''tuple index out of range''\<rparr>
   \<and> \<not> isl (train_model_background demo_env ''20240706_120000'' ''t1''
           (training_jobs (fst (train_model no_jobs ''job-1'' ''t0'' five_observations)))
           ''job-1'' five_observations)"
proof -
  let ?job = "\<lparr>status = ''PENDING'', tj_modelType = ''lstm'', startedAt = ''t0'',
             tj_accuracy = None, tj_mape = None, completedAt = None, modelPath = None,
             errorMessage = None, failedAt = None\<rparr>"
  have h1: "training_jobs (fst (train_model no_jobs ''job-1'' ''t0'' five_observations)) ''job-1''
      = Some ?job"
    by (simp add: train_model_entry five_observations_def)
  have h2: "background_body demo_env ''20240706_120000'' five_observations
      = Inl (PyExc ''IndexError'' ''tuple index out of range'')"
    by (rule body_five_observations)
  show ?thesis
    using h1 h2
      C7_failure_recorded [where jobs = "training_jobs (fst (train_model no_jobs ''job-1'' ''t0''
          five_observations))" and job = ?job and job_id = "''job-1''"
        and utcnow = "''t1''" and s = no_jobs and started = "''t0''", OF h1 h2]
    by simp
qed

text \<open>
  The submission and the task in the transition system: from a state in which every
  waiting task belongs to a PENDING job of its own, every step leads to such a state, and
  in every step each job keeps or advances its status; a job that is COMPLETED or
  FAILED keeps its whole entry.
\<close>

lemma tasks_pending_initially: "tasks_pending no_jobs"
  by (simp add: tasks_pending_def no_jobs_def)

lemma service_step_forward:
  assumes "service_step env s s'" and "tasks_pending s"
  shows "tasks_pending s'
     \<and> (\<forall>k job. training_jobs s k = Some job \<longrightarrow>
           (\<exists>job'. training_jobs s' k = Some job'
              \<and> status_rank (status job) \<le> status_rank (status job')
              \<and> (terminal (status job) \<longrightarrow> job' = job)))"
  using assms
proof (induction rule: service_step.induct)
  case (submit job_id s utcnow request)
  have fresh: "training_jobs s job_id = None"
    using submit.hyps by auto
  have notq: "job_id \<notin> set (map fst (background_tasks s))"
    using submit.prems fresh by (fastforce simp: tasks_pending_def)
  have "tasks_pending (fst (train_model s job_id utcnow request))"
    using submit.prems notq fresh
    by (auto simp: tasks_pending_def train_model_def)
  moreover have "\<forall>k job. training_jobs s k = Some job \<longrightarrow>
      (\<exists>job'. training_jobs (fst (train_model s job_id utcnow request)) k = Some job'
         \<and> status_rank (status job) \<le> status_rank (status job')
         \<and> (terminal (status job) \<longrightarrow> job' = job))"
    using fresh by (auto simp: train_model_def)
  ultimately show ?case by blast
next
  case (run s before job_id request after stamp utcnow jobs')
  let ?s' = "\<lparr>training_jobs = jobs', background_tasks = before @ after\<rparr>"
  have dist: "distinct (map fst (before @ (job_id, request) # after))"
    using run.prems run.hyps(1) by (simp add: tasks_pending_def)
  obtain job where job: "training_jobs s job_id = Some job" and pend: "status job = ''PENDING''"
    using run.prems run.hyps(1) by (auto simp: tasks_pending_def)
  let ?final = "case background_body env stamp request of
          Inl e \<Rightarrow> job\<lparr>status := ''FAILED'', errorMessage := Some (exc_str e),
                       failedAt := Some utcnow\<rparr>
        | Inr (metrics, model_path) \<Rightarrow>
            job\<lparr>status := ''COMPLETED'', tj_accuracy := Some (accuracy metrics),
                 tj_mape := Some (mape metrics), completedAt := Some utcnow,
                 modelPath := Some model_path\<rparr>"
  have jobs': "jobs' = (training_jobs s)(job_id \<mapsto> ?final)"
    using run.hyps(2)
      train_model_background_present [where jobs = "training_jobs s" and job_id = job_id
        and job = job and env = env and stamp = stamp and utcnow = utcnow
        and request = request, OF job]
    by simp
  have others: "j \<noteq> job_id" if "j \<in> set (map fst (before @ after))" for j
    using dist that by auto
  have "tasks_pending ?s'"
    unfolding tasks_pending_def
  proof (intro conjI ballI)
    show "distinct (map fst (background_tasks ?s'))"
      using dist by simp
  next
    fix j assume j: "j \<in> set (map fst (background_tasks ?s'))"
    then have "j \<in> set (map fst (background_tasks s))"
      using run.hyps(1) by auto
    then obtain jb where "training_jobs s j = Some jb" and "status jb = ''PENDING''"
      using run.prems by (auto simp: tasks_pending_def)
    moreover have "j \<noteq> job_id" using others j by simp
    ultimately show "\<exists>jb. training_jobs ?s' j = Some jb \<and> status jb = ''PENDING''"
      by (simp add: jobs')
  qed
  moreover have "\<forall>k jb. training_jobs s k = Some jb \<longrightarrow>
      (\<exists>jb'. training_jobs ?s' k = Some jb'
         \<and> status_rank (status jb) \<le> status_rank (status jb')
         \<and> (terminal (status jb) \<longrightarrow> jb' = jb))"
  proof (intro allI impI)
    fix k jb assume k: "training_jobs s k = Some jb"
    show "\<exists>jb'. training_jobs ?s' k = Some jb'
         \<and> status_rank (status jb) \<le> status_rank (status jb')
         \<and> (terminal (status jb) \<longrightarrow> jb' = jb)"
    proof (cases "k = job_id")
      case True
      then have "jb = job" using k job by simp
      then show ?thesis
        using True pend by (simp add: jobs' status_rank_def terminal_def)
    next
      case False
      then show ?thesis using k by (simp add: jobs')
    qed
  qed
  ultimately show ?case by blast
qed


section \<open>The forecast endpoint\<close>

lemma make_future_fitted:
  assumes "history_dates p = Some h" and "h \<noteq> []"
  shows "make_future_dataframe p n = Inr (h @ map (\<lambda>k. Max (set h) + k * NS_PER_DAY) [1..n])"
proof (cases h)
  case Nil
  then show ?thesis using assms(2) by simp
next
  case (Cons d ds')
  have "fold max ds' d = Max (set (d # ds'))"
    by (simp only: Max.set_eq_fold)
  then show ?thesis
    by (simp add: make_future_dataframe_def assms(1) Cons)
qed

lemma sorted_future:
  assumes "sorted h"
  shows "sorted (h @ map (\<lambda>k. Max (set h) + k * NS_PER_DAY) [1..n])"
proof -
  have "sorted_wrt (\<lambda>x y. Max (set h) + x * NS_PER_DAY \<le> Max (set h) + y * NS_PER_DAY) [1..n]"
    by (rule sorted_wrt_mono_rel [OF _ sorted_upto]) (simp add: NS_PER_DAY_def)
  then have "sorted (map (\<lambda>k. Max (set h) + k * NS_PER_DAY) [1..n])"
    by (simp only: sorted_map)
  moreover have "x \<le> Max (set h) + k * NS_PER_DAY" if "x \<in> set h" and "1 \<le> k" for x k
  proof -
    have "x \<le> Max (set h)" using that(1) by simp
    moreover have "0 \<le> k * NS_PER_DAY" using that(2) by (simp add: NS_PER_DAY_def)
    ultimately show ?thesis by linarith
  qed
  ultimately show ?thesis
    using assms by (auto simp: sorted_append)
qed

lemma history_nonempty: "df \<noteq> [] \<Longrightarrow> sort (remdups (map fst df)) \<noteq> []"
  by (metis length_0_conv length_sort map_is_Nil_conv remdups_eq_nil_iff)

lemma Prophet_forecast_fitted:
  assumes "df \<noteq> []"
    and "pf_model self = Some \<lparr>history_dates = Some (sort (remdups (map fst df))),
                                fitted_params = Some f\<rparr>"
  shows "Prophet_forecast lib self periods =
     Inr (map (predicted_row lib f) (extended_timeline df periods))"
proof -
  let ?h = "sort (remdups (map fst df))"
  let ?p = "\<lparr>history_dates = Some ?h, fitted_params = Some f\<rparr>"
  let ?future = "?h @ map (\<lambda>k. Max (set ?h) + k * NS_PER_DAY) [1..periods]"
  have h: "?h \<noteq> []" by (rule history_nonempty [OF assms(1)])
  have mk: "make_future_dataframe ?p periods = Inr ?future"
    by (rule make_future_fitted [OF _ h]) simp
  have ne: "?future \<noteq> []" using h by simp
  have "sorted ?future" by (rule sorted_future) simp
  then have srt: "sort ?future = ?future" by (rule sorted_sort_id)
  have pr: "Prophet_predict lib ?p ?future = Inr (map (predicted_row lib f) (sort ?future))"
    by (rule Prophet_predict_fitted [OF _ _ ne]) simp_all
  have "Prophet_forecast lib self periods = Prophet_predict lib ?p ?future"
    by (simp only: Prophet_forecast_def assms(2) option.case mk sum.case)
  also have "\<dots> = Inr (map (predicted_row lib f) ?future)"
    by (simp only: pr srt)
  finally show ?thesis
    by (simp only: extended_timeline_def Let_def)
qed

lemma ds_predicted_row: "ds (predicted_row lib f d) = d"
  by (simp add: predicted_row_def split: prod.splits)

lemma date_row_point: "date (row_point row) = ds row"
  by (simp add: row_point_def)

lemma generate_forecast_with_history:
  assumes "historicalData request = Some (point # points)"
    and "parse (startDate request) = Inr start_date"
    and "parse (endDate request) = Inr end_date"
    and "frame_rows parse (point # points) = Inr df"
    and "2 \<le> length df"
    and "check_kwargs lib default_params = None"
    and "optimize lib default_params df = Inr f"
  shows "\<exists>r. generate_forecast lib parse utcnow request = Inr r
     \<and> forecast r = map row_point
         (filter (\<lambda>row. start_date \<le> ds row \<and> ds row \<le> end_date)
            (map (predicted_row lib f)
               (extended_timeline df (timedelta_days (end_date - start_date) + 1))))"
proof -
  let ?self = "new_ProphetForecaster :: 'a ProphetForecaster"
  let ?p = "\<lparr>history_dates = Some (sort (remdups (map fst df))), fitted_params = Some f\<rparr>"
  have ne: "df \<noteq> []" using assms(5) by auto
  obtain mt where t: "Prophet_train lib ?self df None = (Inr mt, ?self\<lparr>pf_model := Some ?p\<rparr>)"
    using Prophet_train_returns [of df lib None f ?self] assms(5,6,7) by auto
  have fc: "Prophet_forecast lib (?self\<lparr>pf_model := Some ?p\<rparr>) n =
      Inr (map (predicted_row lib f) (extended_timeline df n))" for n
    by (rule Prophet_forecast_fitted [OF ne]) simp
  show ?thesis
    by (simp add: generate_forecast_def generate_forecast_body_def assms(1-4) t fc Let_def
        del: frame_rows.simps)
qed

lemma january_frame:
  "frame_rows demo_dates january_history = Inr [(Timestamp 2024 1 1, 1), (Timestamp 2024 1 2, 3)]"
  by (simp add: january_history_def demo_dates_def)

lemma january_timeline:
  "extended_timeline [(Timestamp 2024 1 1, 1), (Timestamp 2024 1 2, 3)] 2 =
     [Timestamp 2024 1 1, Timestamp 2024 1 2, Timestamp 2024 1 3, Timestamp 2024 1 3 + NS_PER_DAY]"
proof -
  have u: "[1..2] = [1, 2 :: int]" by (simp add: upto.simps)
  show ?thesis
    by (simp add: extended_timeline_def u Timestamp_def days_from_civil_def NS_PER_DAY_def
        Let_def)
qed

lemma dates_of_filtered_rows:
  "map date (map row_point (filter (\<lambda>row. a \<le> ds row \<and> ds row \<le> b)
      (map (predicted_row lib f) xs))) = filter (\<lambda>d. a \<le> d \<and> d \<le> b) xs"
  by (induction xs) (simp_all add: date_row_point ds_predicted_row)

lemma demo_optimize:
  "optimize demo_prophet params [(Timestamp 2024 1 1, 1), (Timestamp 2024 1 2, 3)] = Inr 2"
  by (simp add: demo_prophet_def mean_def)

lemma july_after_january:
  "filter (\<lambda>row. Timestamp 2024 7 6 \<le> ds row \<and> ds row \<le> Timestamp 2024 7 7)
     (map (predicted_row lib f)
        (extended_timeline [(Timestamp 2024 1 1, 1), (Timestamp 2024 1 2, 3)] 2)) = []"
  by (simp add: january_timeline ds_predicted_row)
    (simp add: Timestamp_def days_from_civil_def NS_PER_DAY_def Let_def)

lemma july_periods: "timedelta_days (Timestamp 2024 7 7 - Timestamp 2024 7 6) + 1 = 2"
  by (simp add: Timestamp_def days_from_civil_def NS_PER_DAY_def timedelta_days_def Let_def)

lemma july_request_empty:
  "\<exists>r. generate_forecast demo_prophet demo_dates utcnow july_request = Inr r \<and> forecast r = []"
proof -
  let ?df = "[(Timestamp 2024 1 1, 1), (Timestamp 2024 1 2, 3)] :: dataframe"
  have "\<exists>r. generate_forecast demo_prophet demo_dates utcnow july_request = Inr r
     \<and> forecast r = map row_point
         (filter (\<lambda>row. Timestamp 2024 7 6 \<le> ds row \<and> ds row \<le> Timestamp 2024 7 7)
            (map (predicted_row demo_prophet 2)
               (extended_timeline ?df
                  (timedelta_days (Timestamp 2024 7 7 - Timestamp 2024 7 6) + 1))))"
  proof (rule generate_forecast_with_history)
    show "historicalData july_request = Some (hd january_history # tl january_history)"
      by (simp add: july_request_def january_history_def)
    show "demo_dates (startDate july_request) = Inr (Timestamp 2024 7 6)"
      by (simp add: july_request_def demo_dates_def)
    show "demo_dates (endDate july_request) = Inr (Timestamp 2024 7 7)"
      by (simp add: july_request_def demo_dates_def)
    show "frame_rows demo_dates (hd january_history # tl january_history) = Inr ?df"
      using january_frame by (simp add: january_history_def)
    show "2 \<le> length ?df" by simp
    show "check_kwargs demo_prophet default_params = None"
      by (simp add: demo_prophet_def)
    show "optimize demo_prophet default_params ?df = Inr 2"
      by (rule demo_optimize)
  qed
  then show ?thesis
    by (simp only: july_periods july_after_january list.map)
qed

text \<open>
  Claim C10. For a forecast request with historical data and a date range with start
  \<open>\<le>\<close> end, when the dates parse and the model fits (at least two observations), the
  response succeeds and its forecast list is made of exactly the rows of the model's
  extended timeline (the sorted distinct dates of the history, then \<open>periods\<close> daily
  steps after the last of them) that are dated within the requested window, in timeline
  order. So a request may succeed with fewer than \<open>periods\<close> points: for a history of
  two days in January and a window of two days in July the forecast list is empty.
\<close>

theorem C10_forecast_is_filtered_timeline:
  assumes "historicalData request = Some (point # points)"
    and "parse (startDate request) = Inr start_date"
    and "parse (endDate request) = Inr end_date"
    and "start_date \<le> end_date"
    and "frame_rows parse (point # points) = Inr df"
    and "2 \<le> length df"
    and "check_kwargs lib default_params = None"
    and "optimize lib default_params df = Inr f"
  shows "(\<exists>r. generate_forecast lib parse utcnow request = Inr r
           \<and> forecast r = map row_point
               (filter (\<lambda>row. start_date \<le> ds row \<and> ds row \<le> end_date)
                  (map (predicted_row lib f)
                     (extended_timeline df (timedelta_days (end_date - start_date) + 1))))
           \<and> map date (forecast r) =
               filter (\<lambda>d. start_date \<le> d \<and> d \<le> end_date)
                 (extended_timeline df (timedelta_days (end_date - start_date) + 1)))
       \<and> (\<exists>r. generate_forecast demo_prophet demo_dates utcnow july_request = Inr r
             \<and> forecast r = []
             \<and> int (length (forecast r))
                 < timedelta_days (Timestamp 2024 7 7 - Timestamp 2024 7 6) + 1)"
proof
  from generate_forecast_with_history [OF assms(1-3) assms(5-8), of utcnow]
  obtain r where r: "generate_forecast lib parse utcnow request = Inr r"
    and f: "forecast r = map row_point
               (filter (\<lambda>row. start_date \<le> ds row \<and> ds row \<le> end_date)
                  (map (predicted_row lib f)
                     (extended_timeline df (timedelta_days (end_date - start_date) + 1))))"
    by blast
  have "map date (forecast r) = filter (\<lambda>d. start_date \<le> d \<and> d \<le> end_date)
      (extended_timeline df (timedelta_days (end_date - start_date) + 1))"
    by (simp only: f dates_of_filtered_rows)
  with r f show "\<exists>r. generate_forecast lib parse utcnow request = Inr r
           \<and> forecast r = map row_point
               (filter (\<lambda>row. start_date \<le> ds row \<and> ds row \<le> end_date)
                  (map (predicted_row lib f)
                     (extended_timeline df (timedelta_days (end_date - start_date) + 1))))
           \<and> map date (forecast r) =
               filter (\<lambda>d. start_date \<le> d \<and> d \<le> end_date)
                 (extended_timeline df (timedelta_days (end_date - start_date) + 1))"
    by blast
next
  from july_request_empty [of utcnow]
  show "\<exists>r. generate_forecast demo_prophet demo_dates utcnow july_request = Inr r
             \<and> forecast r = []
             \<and> int (length (forecast r))
                 < timedelta_days (Timestamp 2024 7 7 - Timestamp 2024 7 6) + 1"
    by (auto simp: july_periods)
qed

text \<open>
  Claim C10 at the request for 2024-01-02 to 2024-01-03 on the same history: the
  timeline runs from 1 January to 4 January, and the two days of the window are returned
  with the stand-in's prediction 2 and its band.
\<close>

theorem C10_forecast_is_filtered_timeline_witness:
  "historicalData january_request = Some (hd january_history # tl january_history)
   \<and> demo_dates (startDate january_request) = Inr (Timestamp 2024 1 2)
   \<and> demo_dates (endDate january_request) = Inr (Timestamp 2024 1 3)
   \<and> Timestamp 2024 1 2 \<le> Timestamp 2024 1 3
   \<and> (\<exists>r. generate_forecast demo_prophet demo_dates ''now'' january_request = Inr r
         \<and> map date (forecast r) = [Timestamp 2024 1 2, Timestamp 2024 1 3]
         \<and> map predictedValue (forecast r) = [2, 2])"
proof -
  let ?df = "[(Timestamp 2024 1 1, 1), (Timestamp 2024 1 2, 3)] :: dataframe"
  have h1: "historicalData january_request = Some (hd january_history # tl january_history)"
    by (simp add: january_request_def january_history_def)
  have h2: "demo_dates (startDate january_request) = Inr (Timestamp 2024 1 2)"
    by (simp add: january_request_def demo_dates_def)
  have h3: "demo_dates (endDate january_request) = Inr (Timestamp 2024 1 3)"
    by (simp add: january_request_def demo_dates_def)
  have h4: "Timestamp 2024 1 2 \<le> Timestamp 2024 1 3"
    by (simp add: Timestamp_def days_from_civil_def NS_PER_DAY_def Let_def)
  have h5: "frame_rows demo_dates (hd january_history # tl january_history) = Inr ?df"
    using january_frame by (simp add: january_history_def)
  have h6: "2 \<le> length ?df" by simp
  have h7: "check_kwargs demo_prophet default_params = None"
    by (simp add: demo_prophet_def)
  have h8: "optimize demo_prophet default_params ?df = Inr 2"
    by (rule demo_optimize)
  have p: "timedelta_days (Timestamp 2024 1 3 - Timestamp 2024 1 2) + 1 = 2"
    by (simp add: Timestamp_def days_from_civil_def NS_PER_DAY_def timedelta_days_def Let_def)
  have w: "filter (\<lambda>d. Timestamp 2024 1 2 \<le> d \<and> d \<le> Timestamp 2024 1 3)
      (extended_timeline ?df 2) = [Timestamp 2024 1 2, Timestamp 2024 1 3]"
    by (simp add: january_timeline)
      (simp add: Timestamp_def days_from_civil_def NS_PER_DAY_def Let_def)
  from C10_forecast_is_filtered_timeline [OF h1 h2 h3 h4 h5 h6 h7 h8, of "''now''"]
  obtain r where r: "generate_forecast demo_prophet demo_dates ''now'' january_request = Inr r"
    and f: "forecast r = map row_point
        (filter (\<lambda>row. Timestamp 2024 1 2 \<le> ds row \<and> ds row \<le> Timestamp 2024 1 3)
           (map (predicted_row demo_prophet 2) (extended_timeline ?df 2)))"
    and d: "map date (forecast r) = filter (\<lambda>d. Timestamp 2024 1 2 \<le> d \<and> d \<le> Timestamp 2024 1 3)
        (extended_timeline ?df 2)"
    unfolding p by blast
  have v: "predictedValue (row_point (predicted_row demo_prophet 2 x)) = 2" for x
    by (simp add: row_point_def predicted_row_def demo_prophet_def)
  have "\<forall>p \<in> set (forecast r). predictedValue p = 2"
    unfolding f by (auto simp: v)
  then have "map predictedValue (forecast r) = map (\<lambda>p. 2) (forecast r)"
    by simp
  moreover have "length (forecast r) = 2"
    using arg_cong [OF d, of length] by (simp add: w)
  ultimately have "map predictedValue (forecast r) = [2, 2]"
    by (simp add: map_replicate_const numeral_2_eq_2)
  then show ?thesis
    using h1 h2 h3 h4 r d w by auto
qed

end
